theory Spec2Isabelle
  imports Complex_Main "HOL-Library.Monad_Syntax"
begin

section \<open>Data model of the agents' shared state\<close>

text \<open>
  The agents of \<^verbatim>\<open>src/agents\<close> read and extend the dictionary \<^verbatim>\<open>state["data"]\<close>.
  Python ints are \<open>int\<close>. Python floats are read in two ways: as reals (no rounding,
  no NaN), for the properties that do not depend on rounding, and as an arbitrary number
  type with arbitrary operations, for the rules whose outcome rounding can change.
  A raised exception (KeyError, IndexError, TypeError) is the value \<open>None\<close>.
  The \<^verbatim>\<open>messages\<close> entry of the state is returned unchanged by every agent and printing
  under \<^verbatim>\<open>show_reasoning\<close> has no effect on the returned value; neither is modelled.
\<close>

text \<open>
  The number type \<open>'f\<close> is a parameter of the data model: the agents below are written
  once over the reals, and once over any number type with its own arithmetic.
\<close>

record 'f insider_trade_of =
  shares :: "'f option"
  trade_value :: "'f option"
  transaction_type :: string

record 'f portfolio_of =
  cash :: 'f
  stock :: int

record 'f price_bar_of =
  close :: 'f

datatype 'f pyval_of =
    PStr string
  | PNum 'f
  | PMetrics "(string \<Rightarrow> 'f option) list"
  | PTrades "'f insider_trade_of list"
  | PPortfolio "'f portfolio_of"
  | PPrices "'f price_bar_of list"
  | PDecision string int "(string \<times> 'f pyval_of) list"

type_synonym 'f data_of = "string \<Rightarrow> 'f pyval_of option"

type_synonym insider_trade = "real insider_trade_of"

type_synonym portfolio = "real portfolio_of"

type_synonym price_bar = "real price_bar_of"

type_synonym pyval = "real pyval_of"

type_synonym data = "string \<Rightarrow> pyval option"

text \<open>\<^verbatim>\<open>data.get(key, default)\<close>\<close>

definition get_default :: "'f data_of \<Rightarrow> string \<Rightarrow> 'f pyval_of \<Rightarrow> 'f pyval_of" where
  "get_default d k v = (case d k of None \<Rightarrow> v | Some x \<Rightarrow> x)"

text \<open>Arithmetic on a value that is not a number raises TypeError.\<close>

definition as_num :: "'f pyval_of \<Rightarrow> 'f option" where
  "as_num v = (case v of PNum x \<Rightarrow> Some x | _ \<Rightarrow> None)"

text \<open>\<^verbatim>\<open>data["financial_metrics"][0]\<close>\<close>

definition first_metrics :: "'f data_of \<Rightarrow> (string \<Rightarrow> 'f option) option" where
  "first_metrics d =
     (case d ''financial_metrics'' of
        Some (PMetrics (m # _)) \<Rightarrow> Some m
      | _ \<Rightarrow> None)"

section \<open>Risk manager (agents/risk\_manager.py)\<close>

definition market_risk :: "real \<Rightarrow> real" where
  "market_risk beta = min 1 (max 0 (beta / 2))"

definition size_risk :: "real \<Rightarrow> real" where
  "size_risk market_cap = 1 - min 1 (market_cap / 1000000000000)"

definition leverage_risk :: "real \<Rightarrow> real" where
  "leverage_risk debt_to_equity = min 1 (debt_to_equity / 2)"

definition liquidity_risk :: "real \<Rightarrow> real" where
  "liquidity_risk current_ratio = max 0 (1 - current_ratio / 2)"

definition total_risk_score :: "real \<Rightarrow> real \<Rightarrow> real \<Rightarrow> real \<Rightarrow> real" where
  "total_risk_score mr sr lr lq = mr * 0.3 + sr * 0.2 + lr * 0.3 + lq * 0.2"

text \<open>\<^verbatim>\<open>sum(conf for sig, conf in signals if sig == tag)\<close>\<close>

fun sum_conf :: "string \<Rightarrow> (pyval \<times> pyval) list \<Rightarrow> real option" where
  "sum_conf tag [] = Some 0"
| "sum_conf tag ((sig, conf) # rest) =
     (if sig = PStr tag
      then (case as_num conf of
              None \<Rightarrow> None
            | Some c \<Rightarrow> map_option (\<lambda>s. c + s) (sum_conf tag rest))
      else sum_conf tag rest)"

text \<open>The four (signal, confidence) pairs read with their defaults.\<close>

definition upstream_signals :: "data \<Rightarrow> (pyval \<times> pyval) list" where
  "upstream_signals d =
     [(get_default d ''fundamentals_signal'' (PStr ''neutral''),
       get_default d ''fundamentals_confidence'' (PNum 0.5)),
      (get_default d ''technical_signal'' (PStr ''neutral''),
       get_default d ''technical_confidence'' (PNum 0.5)),
      (get_default d ''sentiment_signal'' (PStr ''neutral''),
       get_default d ''sentiment_confidence'' (PNum 0.5)),
      (get_default d ''valuation_signal'' (PStr ''neutral''),
       get_default d ''valuation_confidence'' (PNum 0.5))]"

text \<open>Lines 61 to 72: the scaled position and its signal, then the cap.\<close>

definition scale_position :: "real \<Rightarrow> real \<Rightarrow> real \<Rightarrow> real \<times> string" where
  "scale_position base_position bullish_weight bearish_weight =
     (if bullish_weight > bearish_weight
        then (base_position * min 1 bullish_weight, ''bullish'')
      else if bearish_weight > bullish_weight
        then (base_position * min 1 bearish_weight, ''bearish'')
      else (0, ''neutral''))"

definition risk_management_agent :: "data \<Rightarrow> data option" where
  "risk_management_agent d = do {
     let signals = upstream_signals d;
     metrics \<leftarrow> first_metrics d;
     beta \<leftarrow> metrics ''beta'';
     market_cap \<leftarrow> metrics ''market_cap'';
     debt_to_equity \<leftarrow> metrics ''debt_to_equity'';
     current_ratio \<leftarrow> metrics ''current_ratio'';
     let total = total_risk_score (market_risk beta) (size_risk market_cap)
                   (leverage_risk debt_to_equity) (liquidity_risk current_ratio);
     let base_position = 1 - total;
     bullish_weight \<leftarrow> sum_conf ''bullish'' signals;
     bearish_weight \<leftarrow> sum_conf ''bearish'' signals;
     let (position_size, signal) = scale_position base_position bullish_weight bearish_weight;
     let position_size = min 0.8 position_size;
     Some (d(''risk_signal'' \<mapsto> PStr signal, ''position_size'' \<mapsto> PNum position_size))
   }"

section \<open>Fundamentals agent (agents/fundamentals.py)\<close>

text \<open>The score of a block of tests starts at 0 and gains 1 for every test that passes.\<close>

definition profitability_signal :: "real \<Rightarrow> real \<Rightarrow> real \<Rightarrow> string" where
  "profitability_signal return_on_equity net_margin operating_margin =
     (let profitability_score =
            (if return_on_equity > 0.15 then 1 else 0)
          + (if net_margin > 0.20 then 1 else 0)
          + (if operating_margin > 0.15 then 1 else (0::nat))
      in if profitability_score \<ge> 2 then ''bullish''
         else if profitability_score = 0 then ''bearish'' else ''neutral'')"

definition growth_signal :: "real \<Rightarrow> real \<Rightarrow> real \<Rightarrow> string" where
  "growth_signal revenue_growth earnings_growth book_value_growth =
     (let growth_score =
            (if revenue_growth > 0.10 then 1 else 0)
          + (if earnings_growth > 0.10 then 1 else 0)
          + (if book_value_growth > 0.10 then 1 else (0::nat))
      in if growth_score \<ge> 2 then ''bullish''
         else if growth_score = 0 then ''bearish'' else ''neutral'')"

definition health_signal :: "real \<Rightarrow> real \<Rightarrow> real \<Rightarrow> string" where
  "health_signal debt_to_equity current_ratio quick_ratio =
     (let health_score =
            (if debt_to_equity < 1.0 then 1 else 0)
          + (if current_ratio > 1.5 then 1 else 0)
          + (if quick_ratio > 1.0 then 1 else (0::nat))
      in if health_score \<ge> 2 then ''bullish''
         else if health_score = 0 then ''bearish'' else ''neutral'')"

definition cash_flow_signal :: "real \<Rightarrow> real \<Rightarrow> string" where
  "cash_flow_signal free_cash_flow_per_share earnings_per_share =
     (let cash_flow_score =
            (if free_cash_flow_per_share > earnings_per_share * 0.8 then 1 else 0)
          + (if free_cash_flow_per_share > 0 then 1 else (0::nat))
      in if cash_flow_score = 2 then ''bullish''
         else if cash_flow_score = 0 then ''bearish'' else ''neutral'')"

definition valuation_signal :: "real \<Rightarrow> real \<Rightarrow> real \<Rightarrow> string" where
  "valuation_signal pe_ratio pb_ratio ps_ratio =
     (let valuation_score =
            (if pe_ratio > 0 \<and> pe_ratio < 30 then 1 else 0)
          + (if pb_ratio < 5 then 1 else 0)
          + (if ps_ratio < 10 then 1 else (0::nat))
      in if valuation_score \<ge> 2 then ''bullish''
         else if valuation_score = 0 then ''bearish'' else ''neutral'')"

text \<open>Lines 97 to 109: counting the sub-signals and choosing the final signal.\<close>

definition aggregate_signals :: "string list \<Rightarrow> string \<times> real" where
  "aggregate_signals signals =
     (let bullish_count = length (filter (\<lambda>s. s = ''bullish'') signals);
          bearish_count = length (filter (\<lambda>s. s = ''bearish'') signals)
      in if bullish_count > bearish_count \<and> bullish_count \<ge> 3
           then (''bullish'',
                 min 1 (real_of_int (int bullish_count - int bearish_count)
                          / real (length signals)))
         else if bearish_count > bullish_count \<and> bearish_count \<ge> 3
           then (''bearish'',
                 min 1 (real_of_int (int bearish_count - int bullish_count)
                          / real (length signals)))
         else (''neutral'', 0.5))"

definition fundamentals_agent :: "data \<Rightarrow> data option" where
  "fundamentals_agent d = do {
     metrics \<leftarrow> first_metrics d;
     return_on_equity \<leftarrow> metrics ''return_on_equity'';
     net_margin \<leftarrow> metrics ''net_margin'';
     operating_margin \<leftarrow> metrics ''operating_margin'';
     let signals = [profitability_signal return_on_equity net_margin operating_margin];
     revenue_growth \<leftarrow> metrics ''revenue_growth'';
     earnings_growth \<leftarrow> metrics ''earnings_growth'';
     book_value_growth \<leftarrow> metrics ''book_value_growth'';
     let signals = signals @ [growth_signal revenue_growth earnings_growth book_value_growth];
     debt_to_equity \<leftarrow> metrics ''debt_to_equity'';
     current_ratio \<leftarrow> metrics ''current_ratio'';
     quick_ratio \<leftarrow> metrics ''quick_ratio'';
     let signals = signals @ [health_signal debt_to_equity current_ratio quick_ratio];
     free_cash_flow_per_share \<leftarrow> metrics ''free_cash_flow_per_share'';
     earnings_per_share \<leftarrow> metrics ''earnings_per_share'';
     let signals = signals @ [cash_flow_signal free_cash_flow_per_share earnings_per_share];
     pe_ratio \<leftarrow> metrics ''price_to_earnings'';
     pb_ratio \<leftarrow> metrics ''price_to_book'';
     ps_ratio \<leftarrow> metrics ''price_to_sales'';
     let signals = signals @ [valuation_signal pe_ratio pb_ratio ps_ratio];
     let (final_signal, confidence) = aggregate_signals signals;
     Some (d(''fundamentals_signal'' \<mapsto> PStr final_signal,
             ''fundamentals_confidence'' \<mapsto> PNum confidence))
   }"

section \<open>Sentiment agent (agents/sentiment.py)\<close>

text \<open>
  \<^verbatim>\<open>pd.Series(...).dropna()\<close> removes the missing entries (None or NaN) of a series;
  a missing entry is \<open>None\<close> here.
\<close>

fun dropna :: "real option list \<Rightarrow> real list" where
  "dropna [] = []"
| "dropna (None # xs) = dropna xs"
| "dropna (Some x # xs) = x # dropna xs"

record insider_metrics =
  total_transactions :: nat
  avg_transaction_size :: real
  total_value :: real
  buy_ratio :: real

definition insider_analysis :: "insider_trade list \<Rightarrow> insider_metrics \<times> string \<times> real" where
  "insider_analysis insider_trades =
     (if insider_trades \<noteq> [] then
        let transaction_shares = dropna (map shares insider_trades);
            transaction_values = dropna (map trade_value insider_trades);
            m = \<lparr> total_transactions = length insider_trades,
                  avg_transaction_size =
                    (if transaction_shares \<noteq> []
                     then sum_list transaction_shares / real (length transaction_shares)
                     else 0),
                  total_value =
                    (if transaction_values \<noteq> [] then sum_list transaction_values else 0),
                  buy_ratio =
                    (if insider_trades \<noteq> []
                     then real (length (filter (\<lambda>t. transaction_type t = ''buy'') insider_trades))
                            / real (length insider_trades)
                     else 0) \<rparr>
        in if buy_ratio m > 0.7 \<and> total_value m > 1000000
             then (m, ''bullish'', min 1 (buy_ratio m))
           else if buy_ratio m < 0.3 \<and> total_value m > 1000000
             then (m, ''bearish'', min 1 (1 - buy_ratio m))
           else (m, ''neutral'', 0.5)
      else (\<lparr> total_transactions = 0, avg_transaction_size = 0,
               total_value = 0, buy_ratio = 0 \<rparr>, ''neutral'', 0.5))"

definition sentiment_agent :: "data \<Rightarrow> data option" where
  "sentiment_agent d =
     (case d ''insider_trades'' of
        Some (PTrades insider_trades) \<Rightarrow>
          (let (sentiment_metrics, final_signal, final_confidence) =
                 insider_analysis insider_trades
           in Some (d(''sentiment_signal'' \<mapsto> PStr final_signal,
                      ''sentiment_confidence'' \<mapsto> PNum final_confidence)))
      | _ \<Rightarrow> None)"

section \<open>Portfolio manager (agents/portfolio\_manager.py)\<close>

text \<open>Python's \<^verbatim>\<open>int(x)\<close> on a float drops the fractional part: it rounds towards zero.\<close>

definition py_int :: "real \<Rightarrow> int" where
  "py_int x = (if 0 \<le> x then \<lfloor>x\<rfloor> else \<lceil>x\<rceil>)"

text \<open>\<^verbatim>\<open>data["prices"][-1]["close"]\<close>\<close>

definition latest_close :: "'f data_of \<Rightarrow> 'f option" where
  "latest_close d =
     (case d ''prices'' of
        Some (PPrices bars) \<Rightarrow> (if bars = [] then None else Some (close (last bars)))
      | _ \<Rightarrow> None)"

definition target_shares_of :: "real \<Rightarrow> real \<Rightarrow> int" where
  "target_shares_of target_position_value current_price =
     (if current_price > 0 then py_int (target_position_value / current_price) else 0)"

definition choose_action :: "int \<Rightarrow> int \<Rightarrow> string \<times> int" where
  "choose_action target_shares current_shares =
     (if target_shares > current_shares then (''buy'', target_shares - current_shares)
      else if target_shares < current_shares then (''sell'', current_shares - target_shares)
      else (''hold'', 0))"

text \<open>
  The decision dictionary is \<open>PDecision action quantity reasoning\<close>; the nested reasoning
  dictionary is flattened to dotted keys, and a percentage that the source formats into a
  string is kept as the number formatted. Formatting a value that is not a number raises.
\<close>

definition portfolio_management_agent :: "data \<Rightarrow> data option" where
  "portfolio_management_agent d = do {
     portfolio \<leftarrow> (case d ''portfolio'' of Some (PPortfolio p) \<Rightarrow> Some p | _ \<Rightarrow> None);
     let fundamentals_signal = get_default d ''fundamentals_signal'' (PStr ''neutral'');
     let fundamentals_confidence = get_default d ''fundamentals_confidence'' (PNum 0.5);
     let technical_signal = get_default d ''technical_signal'' (PStr ''neutral'');
     let technical_confidence = get_default d ''technical_confidence'' (PNum 0.5);
     let sentiment_signal = get_default d ''sentiment_signal'' (PStr ''neutral'');
     let sentiment_confidence = get_default d ''sentiment_confidence'' (PNum 0.5);
     let valuation_signal = get_default d ''valuation_signal'' (PStr ''neutral'');
     let valuation_confidence = get_default d ''valuation_confidence'' (PNum 0.5);
     let risk_signal = get_default d ''risk_signal'' (PStr ''neutral'');
     current_price \<leftarrow> latest_close d;
     position_size \<leftarrow> as_num (get_default d ''position_size'' (PNum 0));
     let total_portfolio_value = cash portfolio + real_of_int (stock portfolio) * current_price;
     let target_position_value = total_portfolio_value * position_size;
     let target_shares = target_shares_of target_position_value current_price;
     let current_shares = stock portfolio;
     let (action, quantity) = choose_action target_shares current_shares;
     fc \<leftarrow> as_num fundamentals_confidence;
     tc \<leftarrow> as_num technical_confidence;
     sc \<leftarrow> as_num sentiment_confidence;
     vc \<leftarrow> as_num valuation_confidence;
     let decision = PDecision action quantity
           [(''signals.fundamentals.signal'', fundamentals_signal),
            (''signals.fundamentals.confidence'', PNum (fc * 100)),
            (''signals.technical.signal'', technical_signal),
            (''signals.technical.confidence'', PNum (tc * 100)),
            (''signals.sentiment.signal'', sentiment_signal),
            (''signals.sentiment.confidence'', PNum (sc * 100)),
            (''signals.valuation.signal'', valuation_signal),
            (''signals.valuation.confidence'', PNum (vc * 100)),
            (''signals.risk.signal'', risk_signal),
            (''signals.risk.position_size'', PNum (position_size * 100)),
            (''portfolio.current_shares'', PNum (real_of_int current_shares)),
            (''portfolio.target_shares'', PNum (real_of_int target_shares)),
            (''portfolio.current_price'', PNum current_price),
            (''portfolio.total_value'', PNum total_portfolio_value)];
     Some (d(''final_decision'' \<mapsto> decision))
   }"

section \<open>The agents over any arithmetic\<close>

text \<open>
  What Python computes with floats depends on rounding, on the summation algorithm of
  \<^verbatim>\<open>sum\<close> and of pandas, and on infinities and NaN. An arithmetic gives every operation
  the agents use as a function on the number type, with nothing assumed about it:
  \<open>lit\<close> is a float literal, \<open>int_num\<close> an int used as a number, \<open>flt\<close> is \<^verbatim>\<open><\<close>,
  \<open>real_val\<close> is the real a finite number stands for (\<open>None\<close> for an infinity or NaN),
  \<open>builtin_sum\<close> is \<^verbatim>\<open>sum\<close>, \<open>series_sum\<close> and \<open>series_mean\<close> are the pandas
  reductions followed by \<^verbatim>\<open>float\<close>, and \<open>isna\<close> is the test \<^verbatim>\<open>dropna\<close> applies to a number.
  IEEE doubles with Python's operators are one arithmetic, the reals another.
\<close>

record 'f arithmetic =
  lit :: "real \<Rightarrow> 'f"
  int_num :: "int \<Rightarrow> 'f"
  fadd :: "'f \<Rightarrow> 'f \<Rightarrow> 'f"
  fsub :: "'f \<Rightarrow> 'f \<Rightarrow> 'f"
  fmul :: "'f \<Rightarrow> 'f \<Rightarrow> 'f"
  fdiv :: "'f \<Rightarrow> 'f \<Rightarrow> 'f"
  flt :: "'f \<Rightarrow> 'f \<Rightarrow> bool"
  real_val :: "'f \<Rightarrow> real option"
  builtin_sum :: "'f list \<Rightarrow> 'f"
  series_sum :: "'f list \<Rightarrow> 'f"
  series_mean :: "'f list \<Rightarrow> 'f"
  isna :: "'f \<Rightarrow> bool"

text \<open>The reals with their exact operations.\<close>

definition exact :: "real arithmetic" where
  "exact =
     \<lparr> lit = (\<lambda>x. x), int_num = real_of_int,
       fadd = (\<lambda>x y. x + y), fsub = (\<lambda>x y. x - y),
       fmul = (\<lambda>x y. x * y), fdiv = (\<lambda>x y. x / y),
       flt = (\<lambda>x y. x < y), real_val = Some,
       builtin_sum = sum_list, series_sum = sum_list,
       series_mean = (\<lambda>xs. sum_list xs / real (length xs)),
       isna = (\<lambda>x. False) \<rparr>"

text \<open>
  \<^verbatim>\<open>min(a, b)\<close> keeps \<open>a\<close> unless \<open>b < a\<close>; \<^verbatim>\<open>max(a, b)\<close> keeps \<open>a\<close> unless \<open>b > a\<close>.
\<close>

definition py_min :: "'f arithmetic \<Rightarrow> 'f \<Rightarrow> 'f \<Rightarrow> 'f" where
  "py_min ar a b = (if flt ar b a then b else a)"

definition py_max :: "'f arithmetic \<Rightarrow> 'f \<Rightarrow> 'f \<Rightarrow> 'f" where
  "py_max ar a b = (if flt ar a b then b else a)"

subsection \<open>Risk manager\<close>

definition market_risk_fp :: "'f arithmetic \<Rightarrow> 'f \<Rightarrow> 'f" where
  "market_risk_fp ar beta =
     py_min ar (lit ar 1.0) (py_max ar (lit ar 0.0) (fdiv ar beta (int_num ar 2)))"

definition size_risk_fp :: "'f arithmetic \<Rightarrow> 'f \<Rightarrow> 'f" where
  "size_risk_fp ar market_cap =
     fsub ar (lit ar 1.0) (py_min ar (lit ar 1.0) (fdiv ar market_cap (lit ar 1000000000000)))"

definition leverage_risk_fp :: "'f arithmetic \<Rightarrow> 'f \<Rightarrow> 'f" where
  "leverage_risk_fp ar debt_to_equity =
     py_min ar (lit ar 1.0) (fdiv ar debt_to_equity (int_num ar 2))"

definition liquidity_risk_fp :: "'f arithmetic \<Rightarrow> 'f \<Rightarrow> 'f" where
  "liquidity_risk_fp ar current_ratio =
     py_max ar (lit ar 0.0) (fsub ar (lit ar 1.0) (fdiv ar current_ratio (int_num ar 2)))"

definition total_risk_score_fp :: "'f arithmetic \<Rightarrow> 'f \<Rightarrow> 'f \<Rightarrow> 'f \<Rightarrow> 'f \<Rightarrow> 'f" where
  "total_risk_score_fp ar mr sr lr lq =
     fadd ar (fadd ar (fadd ar (fmul ar mr (lit ar 0.3)) (fmul ar sr (lit ar 0.2)))
                      (fmul ar lr (lit ar 0.3)))
             (fmul ar lq (lit ar 0.2))"

text \<open>
  The confidences the generator \<^verbatim>\<open>conf for sig, conf in signals if sig == tag\<close> yields,
  in order; adding one that is not a number raises.
\<close>

fun tagged_confidences :: "string \<Rightarrow> ('f pyval_of \<times> 'f pyval_of) list \<Rightarrow> 'f list option" where
  "tagged_confidences tag [] = Some []"
| "tagged_confidences tag ((sig, conf) # rest) =
     (if sig = PStr tag
      then (case as_num conf of
              None \<Rightarrow> None
            | Some c \<Rightarrow> map_option (\<lambda>cs. c # cs) (tagged_confidences tag rest))
      else tagged_confidences tag rest)"

definition sum_conf_fp ::
  "'f arithmetic \<Rightarrow> string \<Rightarrow> ('f pyval_of \<times> 'f pyval_of) list \<Rightarrow> 'f option" where
  "sum_conf_fp ar tag signals = map_option (builtin_sum ar) (tagged_confidences tag signals)"

definition upstream_signals_fp ::
  "'f arithmetic \<Rightarrow> 'f data_of \<Rightarrow> ('f pyval_of \<times> 'f pyval_of) list" where
  "upstream_signals_fp ar d =
     [(get_default d ''fundamentals_signal'' (PStr ''neutral''),
       get_default d ''fundamentals_confidence'' (PNum (lit ar 0.5))),
      (get_default d ''technical_signal'' (PStr ''neutral''),
       get_default d ''technical_confidence'' (PNum (lit ar 0.5))),
      (get_default d ''sentiment_signal'' (PStr ''neutral''),
       get_default d ''sentiment_confidence'' (PNum (lit ar 0.5))),
      (get_default d ''valuation_signal'' (PStr ''neutral''),
       get_default d ''valuation_confidence'' (PNum (lit ar 0.5)))]"

definition scale_position_fp :: "'f arithmetic \<Rightarrow> 'f \<Rightarrow> 'f \<Rightarrow> 'f \<Rightarrow> 'f \<times> string" where
  "scale_position_fp ar base_position bullish_weight bearish_weight =
     (if flt ar bearish_weight bullish_weight
        then (fmul ar base_position (py_min ar (lit ar 1.0) bullish_weight), ''bullish'')
      else if flt ar bullish_weight bearish_weight
        then (fmul ar base_position (py_min ar (lit ar 1.0) bearish_weight), ''bearish'')
      else (int_num ar 0, ''neutral''))"

definition risk_management_agent_fp :: "'f arithmetic \<Rightarrow> 'f data_of \<Rightarrow> 'f data_of option" where
  "risk_management_agent_fp ar d = do {
     let signals = upstream_signals_fp ar d;
     metrics \<leftarrow> first_metrics d;
     beta \<leftarrow> metrics ''beta'';
     market_cap \<leftarrow> metrics ''market_cap'';
     debt_to_equity \<leftarrow> metrics ''debt_to_equity'';
     current_ratio \<leftarrow> metrics ''current_ratio'';
     let total = total_risk_score_fp ar (market_risk_fp ar beta) (size_risk_fp ar market_cap)
                   (leverage_risk_fp ar debt_to_equity) (liquidity_risk_fp ar current_ratio);
     let base_position = fsub ar (lit ar 1.0) total;
     bullish_weight \<leftarrow> sum_conf_fp ar ''bullish'' signals;
     bearish_weight \<leftarrow> sum_conf_fp ar ''bearish'' signals;
     let (position_size, signal) =
           scale_position_fp ar base_position bullish_weight bearish_weight;
     let position_size = py_min ar (lit ar 0.8) position_size;
     Some (d(''risk_signal'' \<mapsto> PStr signal, ''position_size'' \<mapsto> PNum position_size))
   }"

subsection \<open>Fundamentals agent\<close>

definition profitability_signal_fp :: "'f arithmetic \<Rightarrow> 'f \<Rightarrow> 'f \<Rightarrow> 'f \<Rightarrow> string" where
  "profitability_signal_fp ar return_on_equity net_margin operating_margin =
     (let profitability_score =
            (if flt ar (lit ar 0.15) return_on_equity then 1 else 0)
          + (if flt ar (lit ar 0.20) net_margin then 1 else 0)
          + (if flt ar (lit ar 0.15) operating_margin then 1 else (0::nat))
      in if profitability_score \<ge> 2 then ''bullish''
         else if profitability_score = 0 then ''bearish'' else ''neutral'')"

definition growth_signal_fp :: "'f arithmetic \<Rightarrow> 'f \<Rightarrow> 'f \<Rightarrow> 'f \<Rightarrow> string" where
  "growth_signal_fp ar revenue_growth earnings_growth book_value_growth =
     (let growth_score =
            (if flt ar (lit ar 0.10) revenue_growth then 1 else 0)
          + (if flt ar (lit ar 0.10) earnings_growth then 1 else 0)
          + (if flt ar (lit ar 0.10) book_value_growth then 1 else (0::nat))
      in if growth_score \<ge> 2 then ''bullish''
         else if growth_score = 0 then ''bearish'' else ''neutral'')"

definition health_signal_fp :: "'f arithmetic \<Rightarrow> 'f \<Rightarrow> 'f \<Rightarrow> 'f \<Rightarrow> string" where
  "health_signal_fp ar debt_to_equity current_ratio quick_ratio =
     (let health_score =
            (if flt ar debt_to_equity (lit ar 1.0) then 1 else 0)
          + (if flt ar (lit ar 1.5) current_ratio then 1 else 0)
          + (if flt ar (lit ar 1.0) quick_ratio then 1 else (0::nat))
      in if health_score \<ge> 2 then ''bullish''
         else if health_score = 0 then ''bearish'' else ''neutral'')"

definition cash_flow_signal_fp :: "'f arithmetic \<Rightarrow> 'f \<Rightarrow> 'f \<Rightarrow> string" where
  "cash_flow_signal_fp ar free_cash_flow_per_share earnings_per_share =
     (let cash_flow_score =
            (if flt ar (fmul ar earnings_per_share (lit ar 0.8)) free_cash_flow_per_share
             then 1 else 0)
          + (if flt ar (int_num ar 0) free_cash_flow_per_share then 1 else (0::nat))
      in if cash_flow_score = 2 then ''bullish''
         else if cash_flow_score = 0 then ''bearish'' else ''neutral'')"

definition valuation_signal_fp :: "'f arithmetic \<Rightarrow> 'f \<Rightarrow> 'f \<Rightarrow> 'f \<Rightarrow> string" where
  "valuation_signal_fp ar pe_ratio pb_ratio ps_ratio =
     (let valuation_score =
            (if flt ar (int_num ar 0) pe_ratio \<and> flt ar pe_ratio (int_num ar 30) then 1 else 0)
          + (if flt ar pb_ratio (int_num ar 5) then 1 else 0)
          + (if flt ar ps_ratio (int_num ar 10) then 1 else (0::nat))
      in if valuation_score \<ge> 2 then ''bullish''
         else if valuation_score = 0 then ''bearish'' else ''neutral'')"

definition aggregate_signals_fp :: "'f arithmetic \<Rightarrow> string list \<Rightarrow> string \<times> 'f" where
  "aggregate_signals_fp ar signals =
     (let bullish_count = length (filter (\<lambda>s. s = ''bullish'') signals);
          bearish_count = length (filter (\<lambda>s. s = ''bearish'') signals)
      in if bullish_count > bearish_count \<and> bullish_count \<ge> 3
           then (''bullish'',
                 py_min ar (lit ar 1.0)
                   (fdiv ar (int_num ar (int bullish_count - int bearish_count))
                            (int_num ar (int (length signals)))))
         else if bearish_count > bullish_count \<and> bearish_count \<ge> 3
           then (''bearish'',
                 py_min ar (lit ar 1.0)
                   (fdiv ar (int_num ar (int bearish_count - int bullish_count))
                            (int_num ar (int (length signals)))))
         else (''neutral'', lit ar 0.5))"

definition fundamentals_agent_fp :: "'f arithmetic \<Rightarrow> 'f data_of \<Rightarrow> 'f data_of option" where
  "fundamentals_agent_fp ar d = do {
     metrics \<leftarrow> first_metrics d;
     return_on_equity \<leftarrow> metrics ''return_on_equity'';
     net_margin \<leftarrow> metrics ''net_margin'';
     operating_margin \<leftarrow> metrics ''operating_margin'';
     let signals = [profitability_signal_fp ar return_on_equity net_margin operating_margin];
     revenue_growth \<leftarrow> metrics ''revenue_growth'';
     earnings_growth \<leftarrow> metrics ''earnings_growth'';
     book_value_growth \<leftarrow> metrics ''book_value_growth'';
     let signals =
           signals @ [growth_signal_fp ar revenue_growth earnings_growth book_value_growth];
     debt_to_equity \<leftarrow> metrics ''debt_to_equity'';
     current_ratio \<leftarrow> metrics ''current_ratio'';
     quick_ratio \<leftarrow> metrics ''quick_ratio'';
     let signals = signals @ [health_signal_fp ar debt_to_equity current_ratio quick_ratio];
     free_cash_flow_per_share \<leftarrow> metrics ''free_cash_flow_per_share'';
     earnings_per_share \<leftarrow> metrics ''earnings_per_share'';
     let signals =
           signals @ [cash_flow_signal_fp ar free_cash_flow_per_share earnings_per_share];
     pe_ratio \<leftarrow> metrics ''price_to_earnings'';
     pb_ratio \<leftarrow> metrics ''price_to_book'';
     ps_ratio \<leftarrow> metrics ''price_to_sales'';
     let signals = signals @ [valuation_signal_fp ar pe_ratio pb_ratio ps_ratio];
     let (final_signal, confidence) = aggregate_signals_fp ar signals;
     Some (d(''fundamentals_signal'' \<mapsto> PStr final_signal,
             ''fundamentals_confidence'' \<mapsto> PNum confidence))
   }"

subsection \<open>Sentiment agent\<close>

text \<open>\<^verbatim>\<open>dropna\<close> removes \<open>None\<close> and the numbers the arithmetic counts as missing (NaN).\<close>

fun dropna_fp :: "'f arithmetic \<Rightarrow> 'f option list \<Rightarrow> 'f list" where
  "dropna_fp ar [] = []"
| "dropna_fp ar (None # xs) = dropna_fp ar xs"
| "dropna_fp ar (Some x # xs) = (if isna ar x then dropna_fp ar xs else x # dropna_fp ar xs)"

record 'f insider_metrics_of =
  im_total_transactions :: nat
  im_avg_transaction_size :: 'f
  im_total_value :: 'f
  im_buy_ratio :: 'f

definition insider_analysis_fp ::
  "'f arithmetic \<Rightarrow> 'f insider_trade_of list \<Rightarrow> 'f insider_metrics_of \<times> string \<times> 'f" where
  "insider_analysis_fp ar insider_trades =
     (if insider_trades \<noteq> [] then
        let transaction_shares = dropna_fp ar (map shares insider_trades);
            transaction_values = dropna_fp ar (map trade_value insider_trades);
            m = \<lparr> im_total_transactions = length insider_trades,
                  im_avg_transaction_size =
                    (if transaction_shares \<noteq> []
                     then series_mean ar transaction_shares else int_num ar 0),
                  im_total_value =
                    (if transaction_values \<noteq> []
                     then series_sum ar transaction_values else int_num ar 0),
                  im_buy_ratio =
                    (if insider_trades \<noteq> []
                     then fdiv ar
                            (int_num ar (int (length
                               (filter (\<lambda>t. transaction_type t = ''buy'') insider_trades))))
                            (int_num ar (int (length insider_trades)))
                     else int_num ar 0) \<rparr>
        in if flt ar (lit ar 0.7) (im_buy_ratio m)
                \<and> flt ar (int_num ar 1000000) (im_total_value m)
             then (m, ''bullish'', py_min ar (lit ar 1.0) (im_buy_ratio m))
           else if flt ar (im_buy_ratio m) (lit ar 0.3)
                \<and> flt ar (int_num ar 1000000) (im_total_value m)
             then (m, ''bearish'',
                   py_min ar (lit ar 1.0) (fsub ar (int_num ar 1) (im_buy_ratio m)))
           else (m, ''neutral'', lit ar 0.5)
      else (\<lparr> im_total_transactions = 0, im_avg_transaction_size = int_num ar 0,
               im_total_value = int_num ar 0, im_buy_ratio = int_num ar 0 \<rparr>,
            ''neutral'', lit ar 0.5))"

definition sentiment_agent_fp :: "'f arithmetic \<Rightarrow> 'f data_of \<Rightarrow> 'f data_of option" where
  "sentiment_agent_fp ar d =
     (case d ''insider_trades'' of
        Some (PTrades insider_trades) \<Rightarrow>
          (let (sentiment_metrics, final_signal, final_confidence) =
                 insider_analysis_fp ar insider_trades
           in Some (d(''sentiment_signal'' \<mapsto> PStr final_signal,
                      ''sentiment_confidence'' \<mapsto> PNum final_confidence)))
      | _ \<Rightarrow> None)"

subsection \<open>Portfolio manager\<close>

text \<open>
  \<^verbatim>\<open>int(x)\<close> raises on an infinity or NaN and drops the fractional part of a finite
  number; it is reached only when the price is positive.
\<close>

definition target_shares_of_fp :: "'f arithmetic \<Rightarrow> 'f \<Rightarrow> 'f \<Rightarrow> int option" where
  "target_shares_of_fp ar target_position_value current_price =
     (if flt ar (int_num ar 0) current_price
      then map_option py_int (real_val ar (fdiv ar target_position_value current_price))
      else Some 0)"

definition portfolio_management_agent_fp ::
  "'f arithmetic \<Rightarrow> 'f data_of \<Rightarrow> 'f data_of option" where
  "portfolio_management_agent_fp ar d = do {
     portfolio \<leftarrow> (case d ''portfolio'' of Some (PPortfolio p) \<Rightarrow> Some p | _ \<Rightarrow> None);
     let fundamentals_signal = get_default d ''fundamentals_signal'' (PStr ''neutral'');
     let fundamentals_confidence =
           get_default d ''fundamentals_confidence'' (PNum (lit ar 0.5));
     let technical_signal = get_default d ''technical_signal'' (PStr ''neutral'');
     let technical_confidence = get_default d ''technical_confidence'' (PNum (lit ar 0.5));
     let sentiment_signal = get_default d ''sentiment_signal'' (PStr ''neutral'');
     let sentiment_confidence = get_default d ''sentiment_confidence'' (PNum (lit ar 0.5));
     let valuation_signal = get_default d ''valuation_signal'' (PStr ''neutral'');
     let valuation_confidence = get_default d ''valuation_confidence'' (PNum (lit ar 0.5));
     let risk_signal = get_default d ''risk_signal'' (PStr ''neutral'');
     current_price \<leftarrow> latest_close d;
     position_size \<leftarrow> as_num (get_default d ''position_size'' (PNum (int_num ar 0)));
     let total_portfolio_value =
           fadd ar (cash portfolio) (fmul ar (int_num ar (stock portfolio)) current_price);
     let target_position_value = fmul ar total_portfolio_value position_size;
     target_shares \<leftarrow> target_shares_of_fp ar target_position_value current_price;
     let current_shares = stock portfolio;
     let (action, quantity) = choose_action target_shares current_shares;
     fc \<leftarrow> as_num fundamentals_confidence;
     tc \<leftarrow> as_num technical_confidence;
     sc \<leftarrow> as_num sentiment_confidence;
     vc \<leftarrow> as_num valuation_confidence;
     let decision = PDecision action quantity
           [(''signals.fundamentals.signal'', fundamentals_signal),
            (''signals.fundamentals.confidence'', PNum (fmul ar fc (int_num ar 100))),
            (''signals.technical.signal'', technical_signal),
            (''signals.technical.confidence'', PNum (fmul ar tc (int_num ar 100))),
            (''signals.sentiment.signal'', sentiment_signal),
            (''signals.sentiment.confidence'', PNum (fmul ar sc (int_num ar 100))),
            (''signals.valuation.signal'', valuation_signal),
            (''signals.valuation.confidence'', PNum (fmul ar vc (int_num ar 100))),
            (''signals.risk.signal'', risk_signal),
            (''signals.risk.position_size'', PNum (fmul ar position_size (int_num ar 100))),
            (''portfolio.current_shares'', PNum (int_num ar current_shares)),
            (''portfolio.target_shares'', PNum (int_num ar target_shares)),
            (''portfolio.current_price'', PNum current_price),
            (''portfolio.total_value'', PNum total_portfolio_value)];
     Some (d(''final_decision'' \<mapsto> decision))
   }"

definition final_order_fp :: "'f arithmetic \<Rightarrow> 'f data_of \<Rightarrow> (string \<times> int) option" where
  "final_order_fp ar d =
     (case portfolio_management_agent_fp ar d of
        None \<Rightarrow> None
      | Some out \<Rightarrow>
          (case out ''final_decision'' of
             Some (PDecision action quantity reasoning) \<Rightarrow> Some (action, quantity)
           | _ \<Rightarrow> None))"

text \<open>Every upstream confidence that is present is a number.\<close>

definition numeric_or_absent :: "'f data_of \<Rightarrow> string \<Rightarrow> bool" where
  "numeric_or_absent d k = (case d k of None \<Rightarrow> True | Some v \<Rightarrow> as_num v \<noteq> None)"

definition upstream_numeric_fp :: "'f data_of \<Rightarrow> bool" where
  "upstream_numeric_fp d \<longleftrightarrow>
     numeric_or_absent d ''fundamentals_confidence'' \<and>
     numeric_or_absent d ''technical_confidence'' \<and>
     numeric_or_absent d ''sentiment_confidence'' \<and>
     numeric_or_absent d ''valuation_confidence''"

section \<open>The pipeline stages and what they publish\<close>

datatype stage = Fundamentals | Sentiment | RiskManager | PortfolioManager

fun run_stage :: "stage \<Rightarrow> data \<Rightarrow> data option" where
  "run_stage Fundamentals d = fundamentals_agent d"
| "run_stage Sentiment d = sentiment_agent d"
| "run_stage RiskManager d = risk_management_agent d"
| "run_stage PortfolioManager d = portfolio_management_agent d"

text \<open>The keys each agent writes in the dictionary it returns.\<close>

fun published_keys :: "stage \<Rightarrow> string set" where
  "published_keys Fundamentals = {''fundamentals_signal'', ''fundamentals_confidence''}"
| "published_keys Sentiment = {''sentiment_signal'', ''sentiment_confidence''}"
| "published_keys RiskManager = {''risk_signal'', ''position_size''}"
| "published_keys PortfolioManager = {''final_decision''}"

text \<open>The action and quantity of the decision the portfolio manager publishes.\<close>

definition final_order :: "data \<Rightarrow> (string \<times> int) option" where
  "final_order d =
     (case portfolio_management_agent d of
        None \<Rightarrow> None
      | Some out \<Rightarrow>
          (case out ''final_decision'' of
             Some (PDecision action quantity reasoning) \<Rightarrow> Some (action, quantity)
           | _ \<Rightarrow> None))"

text \<open>Every upstream confidence that is present is a number.\<close>

definition upstream_numeric :: "data \<Rightarrow> bool" where
  "upstream_numeric d \<longleftrightarrow>
     as_num (get_default d ''fundamentals_confidence'' (PNum 0.5)) \<noteq> None \<and>
     as_num (get_default d ''technical_confidence'' (PNum 0.5)) \<noteq> None \<and>
     as_num (get_default d ''sentiment_confidence'' (PNum 0.5)) \<noteq> None \<and>
     as_num (get_default d ''valuation_confidence'' (PNum 0.5)) \<noteq> None"

section \<open>The rules as the specification words them\<close>

subsection \<open>Risk manager\<close>

definition spec_total_risk :: "real \<Rightarrow> real \<Rightarrow> real \<Rightarrow> real \<Rightarrow> real" where
  "spec_total_risk mr sr lr lq = 0.3 * mr + 0.2 * sr + 0.3 * lr + 0.2 * lq"

definition spec_weight :: "string \<Rightarrow> (pyval \<times> real) list \<Rightarrow> real" where
  "spec_weight tag sigs = sum_list (map snd (filter (\<lambda>sc. fst sc = PStr tag) sigs))"

definition spec_risk_decision :: "real \<Rightarrow> (pyval \<times> real) list \<Rightarrow> string \<times> real" where
  "spec_risk_decision base_position sigs =
     (let bullish_weight = spec_weight ''bullish'' sigs;
          bearish_weight = spec_weight ''bearish'' sigs
      in if bullish_weight > bearish_weight
           then (''bullish'', base_position * min 1 bullish_weight)
         else if bearish_weight > bullish_weight
           then (''bearish'', base_position * min 1 bearish_weight)
         else (''neutral'', 0))"

subsection \<open>Fundamentals analyzer\<close>

text \<open>The FinancialMetrics record of the data model, with the fields the analyzer reads.\<close>

record 'f financial_metrics =
  fm_return_on_equity :: 'f
  fm_net_margin :: 'f
  fm_operating_margin :: 'f
  fm_revenue_growth :: 'f
  fm_earnings_growth :: 'f
  fm_book_value_growth :: 'f
  fm_debt_to_equity :: 'f
  fm_current_ratio :: 'f
  fm_quick_ratio :: 'f
  fm_free_cash_flow_per_share :: 'f
  fm_earnings_per_share :: 'f
  fm_price_to_earnings :: 'f
  fm_price_to_book :: 'f
  fm_price_to_sales :: 'f

text \<open>A metrics dictionary is complete when it holds every field of the record.\<close>

definition holds_metrics :: "(string \<Rightarrow> 'f option) \<Rightarrow> 'f financial_metrics \<Rightarrow> bool" where
  "holds_metrics m fm \<longleftrightarrow>
     m ''return_on_equity'' = Some (fm_return_on_equity fm) \<and>
     m ''net_margin'' = Some (fm_net_margin fm) \<and>
     m ''operating_margin'' = Some (fm_operating_margin fm) \<and>
     m ''revenue_growth'' = Some (fm_revenue_growth fm) \<and>
     m ''earnings_growth'' = Some (fm_earnings_growth fm) \<and>
     m ''book_value_growth'' = Some (fm_book_value_growth fm) \<and>
     m ''debt_to_equity'' = Some (fm_debt_to_equity fm) \<and>
     m ''current_ratio'' = Some (fm_current_ratio fm) \<and>
     m ''quick_ratio'' = Some (fm_quick_ratio fm) \<and>
     m ''free_cash_flow_per_share'' = Some (fm_free_cash_flow_per_share fm) \<and>
     m ''earnings_per_share'' = Some (fm_earnings_per_share fm) \<and>
     m ''price_to_earnings'' = Some (fm_price_to_earnings fm) \<and>
     m ''price_to_book'' = Some (fm_price_to_book fm) \<and>
     m ''price_to_sales'' = Some (fm_price_to_sales fm)"

text \<open>The number of tests that pass, and the 2/0 cut rule.\<close>

definition spec_score :: "bool list \<Rightarrow> nat" where
  "spec_score tests = length (filter (\<lambda>b. b) tests)"

definition spec_cut :: "nat \<Rightarrow> string" where
  "spec_cut score =
     (if score \<ge> 2 then ''bullish'' else if score = 0 then ''bearish'' else ''neutral'')"

subsection \<open>Portfolio manager\<close>

text \<open>The order with the target shares rounded down, as the specification words it.\<close>

definition spec_order :: "real \<Rightarrow> int \<Rightarrow> real \<Rightarrow> real \<Rightarrow> string \<times> int" where
  "spec_order cash_held current_shares price position_size =
     (let total_portfolio_value = cash_held + real_of_int current_shares * price;
          target_value = total_portfolio_value * position_size;
          target_shares = (if price > 0 then \<lfloor>target_value / price\<rfloor> else 0)
      in if target_shares > current_shares then (''buy'', target_shares - current_shares)
         else if target_shares < current_shares then (''sell'', current_shares - target_shares)
         else (''hold'', 0))"

section \<open>The rules as the specification words them, over any arithmetic\<close>

subsection \<open>Risk manager\<close>

definition spec_total_risk_fp :: "'f arithmetic \<Rightarrow> 'f \<Rightarrow> 'f \<Rightarrow> 'f \<Rightarrow> 'f \<Rightarrow> 'f" where
  "spec_total_risk_fp ar mr sr lr lq =
     fadd ar (fadd ar (fadd ar (fmul ar mr (lit ar 0.3)) (fmul ar sr (lit ar 0.2)))
                      (fmul ar lr (lit ar 0.3)))
             (fmul ar lq (lit ar 0.2))"

definition spec_weight_fp :: "'f arithmetic \<Rightarrow> string \<Rightarrow> ('f pyval_of \<times> 'f) list \<Rightarrow> 'f" where
  "spec_weight_fp ar tag sigs =
     builtin_sum ar (map snd (filter (\<lambda>sc. fst sc = PStr tag) sigs))"

definition spec_risk_decision_fp ::
  "'f arithmetic \<Rightarrow> 'f \<Rightarrow> ('f pyval_of \<times> 'f) list \<Rightarrow> string \<times> 'f" where
  "spec_risk_decision_fp ar base_position sigs =
     (let bullish_weight = spec_weight_fp ar ''bullish'' sigs;
          bearish_weight = spec_weight_fp ar ''bearish'' sigs
      in if flt ar bearish_weight bullish_weight
           then (''bullish'', fmul ar base_position (py_min ar (lit ar 1.0) bullish_weight))
         else if flt ar bullish_weight bearish_weight
           then (''bearish'', fmul ar base_position (py_min ar (lit ar 1.0) bearish_weight))
         else (''neutral'', int_num ar 0))"

text \<open>The four input signals of the specification, each with its default.\<close>

definition spec_input_signals ::
  "'f data_of \<Rightarrow> 'f \<Rightarrow> 'f \<Rightarrow> 'f \<Rightarrow> 'f \<Rightarrow> ('f pyval_of \<times> 'f) list" where
  "spec_input_signals d c1 c2 c3 c4 =
     [(case d ''fundamentals_signal'' of None \<Rightarrow> PStr ''neutral'' | Some s \<Rightarrow> s, c1),
      (case d ''technical_signal'' of None \<Rightarrow> PStr ''neutral'' | Some s \<Rightarrow> s, c2),
      (case d ''sentiment_signal'' of None \<Rightarrow> PStr ''neutral'' | Some s \<Rightarrow> s, c3),
      (case d ''valuation_signal'' of None \<Rightarrow> PStr ''neutral'' | Some s \<Rightarrow> s, c4)]"

text \<open>A confidence is the number under its key, or the literal 0.5 when the key is absent.\<close>

definition spec_confidence :: "'f arithmetic \<Rightarrow> 'f data_of \<Rightarrow> string \<Rightarrow> 'f \<Rightarrow> bool" where
  "spec_confidence ar d k c \<longleftrightarrow>
     (case d k of None \<Rightarrow> c = lit ar 0.5 | Some v \<Rightarrow> v = PNum c)"

subsection \<open>Fundamentals analyzer\<close>

definition spec_sub_signals_fp :: "'f arithmetic \<Rightarrow> 'f financial_metrics \<Rightarrow> string list" where
  "spec_sub_signals_fp ar fm =
     [spec_cut (spec_score [flt ar (lit ar 0.15) (fm_return_on_equity fm),
                            flt ar (lit ar 0.20) (fm_net_margin fm),
                            flt ar (lit ar 0.15) (fm_operating_margin fm)]),
      spec_cut (spec_score [flt ar (lit ar 0.10) (fm_revenue_growth fm),
                            flt ar (lit ar 0.10) (fm_earnings_growth fm),
                            flt ar (lit ar 0.10) (fm_book_value_growth fm)]),
      spec_cut (spec_score [flt ar (fm_debt_to_equity fm) (lit ar 1.0),
                            flt ar (lit ar 1.5) (fm_current_ratio fm),
                            flt ar (lit ar 1.0) (fm_quick_ratio fm)]),
      (if flt ar (fmul ar (fm_earnings_per_share fm) (lit ar 0.8))
                 (fm_free_cash_flow_per_share fm)
           \<and> flt ar (int_num ar 0) (fm_free_cash_flow_per_share fm) then ''bullish''
       else if \<not> flt ar (fmul ar (fm_earnings_per_share fm) (lit ar 0.8))
                       (fm_free_cash_flow_per_share fm)
           \<and> \<not> flt ar (int_num ar 0) (fm_free_cash_flow_per_share fm) then ''bearish''
       else ''neutral''),
      spec_cut (spec_score [flt ar (int_num ar 0) (fm_price_to_earnings fm)
                              \<and> flt ar (fm_price_to_earnings fm) (int_num ar 30),
                            flt ar (fm_price_to_book fm) (int_num ar 5),
                            flt ar (fm_price_to_sales fm) (int_num ar 10)])]"

definition spec_fundamentals_fp ::
  "'f arithmetic \<Rightarrow> 'f financial_metrics \<Rightarrow> string \<times> 'f" where
  "spec_fundamentals_fp ar fm =
     (let bullish_count = count_list (spec_sub_signals_fp ar fm) ''bullish'';
          bearish_count = count_list (spec_sub_signals_fp ar fm) ''bearish''
      in if bullish_count > bearish_count \<and> bullish_count \<ge> 3
           then (''bullish'',
                 py_min ar (lit ar 1.0)
                   (fdiv ar (int_num ar (int bullish_count - int bearish_count))
                            (int_num ar 5)))
         else if bearish_count > bullish_count \<and> bearish_count \<ge> 3
           then (''bearish'',
                 py_min ar (lit ar 1.0)
                   (fdiv ar (int_num ar (int bearish_count - int bullish_count))
                            (int_num ar 5)))
         else (''neutral'', lit ar 0.5))"

subsection \<open>Sentiment analyzer\<close>

definition spec_buy_ratio_fp :: "'f arithmetic \<Rightarrow> 'f insider_trade_of list \<Rightarrow> 'f" where
  "spec_buy_ratio_fp ar ts =
     fdiv ar (int_num ar (int (count_list (map transaction_type ts) ''buy'')))
             (int_num ar (int (length ts)))"

text \<open>The values that are present, in order.\<close>

definition present_values :: "'f arithmetic \<Rightarrow> 'f insider_trade_of list \<Rightarrow> 'f list" where
  "present_values ar ts =
     concat (map (\<lambda>t. case trade_value t of
                         None \<Rightarrow> []
                       | Some v \<Rightarrow> (if isna ar v then [] else [v])) ts)"

text \<open>Their sum, and the int 0 when none is present.\<close>

definition spec_total_value_fp :: "'f arithmetic \<Rightarrow> 'f insider_trade_of list \<Rightarrow> 'f" where
  "spec_total_value_fp ar ts =
     (if present_values ar ts = [] then int_num ar 0
      else series_sum ar (present_values ar ts))"

definition spec_sentiment_fp ::
  "'f arithmetic \<Rightarrow> 'f insider_trade_of list \<Rightarrow> string \<times> 'f" where
  "spec_sentiment_fp ar ts =
     (if ts = [] then (''neutral'', lit ar 0.5)
      else if flt ar (lit ar 0.7) (spec_buy_ratio_fp ar ts)
              \<and> flt ar (int_num ar 1000000) (spec_total_value_fp ar ts)
        then (''bullish'', py_min ar (lit ar 1.0) (spec_buy_ratio_fp ar ts))
      else if flt ar (spec_buy_ratio_fp ar ts) (lit ar 0.3)
              \<and> flt ar (int_num ar 1000000) (spec_total_value_fp ar ts)
        then (''bearish'',
              py_min ar (lit ar 1.0) (fsub ar (int_num ar 1) (spec_buy_ratio_fp ar ts)))
      else (''neutral'', lit ar 0.5))"

subsection \<open>Portfolio manager\<close>

definition spec_action :: "int \<Rightarrow> int \<Rightarrow> string \<times> int" where
  "spec_action target_shares current_shares =
     (if target_shares > current_shares then (''buy'', target_shares - current_shares)
      else if target_shares < current_shares then (''sell'', current_shares - target_shares)
      else (''hold'', 0))"

text \<open>
  The order with the quotient rounded towards zero: down when it is not negative, up
  when it is negative. There is no order when the quotient is an infinity or NaN.
\<close>

definition towards_zero_order_fp ::
  "'f arithmetic \<Rightarrow> 'f \<Rightarrow> int \<Rightarrow> 'f \<Rightarrow> 'f \<Rightarrow> (string \<times> int) option" where
  "towards_zero_order_fp ar cash_held current_shares price position_size =
     (let total_portfolio_value = fadd ar cash_held (fmul ar (int_num ar current_shares) price);
          target_value = fmul ar total_portfolio_value position_size
      in if flt ar (int_num ar 0) price
         then (case real_val ar (fdiv ar target_value price) of
                 None \<Rightarrow> None
               | Some q \<Rightarrow>
                   Some (spec_action (if 0 \<le> q then \<lfloor>q\<rfloor> else \<lceil>q\<rceil>) current_shares))
         else Some (spec_action 0 current_shares))"

text \<open>The order the specification gives at price 0.\<close>

definition spec_zero_price_order :: "int \<Rightarrow> string \<times> int" where
  "spec_zero_price_order current_shares =
     (if current_shares > 0 then (''sell'', current_shares) else (''hold'', 0))"

section \<open>Concrete decision contexts\<close>

text \<open>Adversarial metrics: beta 100 and debt to equity 50, one bullish upstream signal.\<close>

definition adversarial_metrics :: "string \<Rightarrow> real option" where
  "adversarial_metrics =
     [''beta'' \<mapsto> 100, ''market_cap'' \<mapsto> 2000000000000,
      ''debt_to_equity'' \<mapsto> 50, ''current_ratio'' \<mapsto> 3]"

definition adversarial_data :: data where
  "adversarial_data =
     [''financial_metrics'' \<mapsto> PMetrics [adversarial_metrics],
      ''fundamentals_signal'' \<mapsto> PStr ''bullish'',
      ''fundamentals_confidence'' \<mapsto> PNum 1]"

text \<open>A negative market capitalisation, every other metric in range.\<close>

definition negative_cap_metrics :: "string \<Rightarrow> real option" where
  "negative_cap_metrics =
     [''beta'' \<mapsto> 0, ''market_cap'' \<mapsto> - 5000000000000,
      ''debt_to_equity'' \<mapsto> 0, ''current_ratio'' \<mapsto> 2]"

definition negative_cap_data :: data where
  "negative_cap_data =
     [''financial_metrics'' \<mapsto> PMetrics [negative_cap_metrics],
      ''fundamentals_signal'' \<mapsto> PStr ''bullish'',
      ''fundamentals_confidence'' \<mapsto> PNum 1]"

text \<open>The risk scenario of the specification, with three upstream signals published.\<close>

definition scenario_risk_metrics :: "string \<Rightarrow> real option" where
  "scenario_risk_metrics =
     [''beta'' \<mapsto> 4, ''market_cap'' \<mapsto> 2000000000000,
      ''debt_to_equity'' \<mapsto> 0, ''current_ratio'' \<mapsto> 3]"

definition scenario_risk_data :: data where
  "scenario_risk_data =
     [''financial_metrics'' \<mapsto> PMetrics [scenario_risk_metrics],
      ''fundamentals_signal'' \<mapsto> PStr ''bullish'',
      ''fundamentals_confidence'' \<mapsto> PNum 0.6,
      ''technical_signal'' \<mapsto> PStr ''bearish'',
      ''technical_confidence'' \<mapsto> PNum 0.25,
      ''sentiment_signal'' \<mapsto> PStr ''bullish'',
      ''sentiment_confidence'' \<mapsto> PNum 0.75]"

definition scenario_risk_signals :: "(pyval \<times> real) list" where
  "scenario_risk_signals =
     [(PStr ''bullish'', 0.6), (PStr ''bearish'', 0.25),
      (PStr ''bullish'', 0.75), (PStr ''neutral'', 0.5)]"

text \<open>The fundamentals scenario of the specification.\<close>

definition scenario_metrics :: "real financial_metrics" where
  "scenario_metrics =
     \<lparr> fm_return_on_equity = 0.20, fm_net_margin = 0.25, fm_operating_margin = 0.18,
       fm_revenue_growth = 0.15, fm_earnings_growth = 0.12, fm_book_value_growth = 0.05,
       fm_debt_to_equity = 0.5, fm_current_ratio = 2.0, fm_quick_ratio = 1.2,
       fm_free_cash_flow_per_share = 2.0, fm_earnings_per_share = 2.0,
       fm_price_to_earnings = 20, fm_price_to_book = 3, fm_price_to_sales = 5 \<rparr>"

definition scenario_metrics_dict :: "string \<Rightarrow> real option" where
  "scenario_metrics_dict =
     [''return_on_equity'' \<mapsto> 0.20, ''net_margin'' \<mapsto> 0.25, ''operating_margin'' \<mapsto> 0.18,
      ''revenue_growth'' \<mapsto> 0.15, ''earnings_growth'' \<mapsto> 0.12, ''book_value_growth'' \<mapsto> 0.05,
      ''debt_to_equity'' \<mapsto> 0.5, ''current_ratio'' \<mapsto> 2.0, ''quick_ratio'' \<mapsto> 1.2,
      ''free_cash_flow_per_share'' \<mapsto> 2.0, ''earnings_per_share'' \<mapsto> 2.0,
      ''price_to_earnings'' \<mapsto> 20, ''price_to_book'' \<mapsto> 3, ''price_to_sales'' \<mapsto> 5]"

definition scenario_data :: data where
  "scenario_data = [''financial_metrics'' \<mapsto> PMetrics [scenario_metrics_dict]]"

text \<open>Four insider trades, three of them buys, one with its numbers missing.\<close>

definition buying_trades :: "insider_trade list" where
  "buying_trades =
     [\<lparr> shares = Some 1000, trade_value = Some 600000, transaction_type = ''buy'' \<rparr>,
      \<lparr> shares = Some 500, trade_value = Some 300000, transaction_type = ''buy'' \<rparr>,
      \<lparr> shares = None, trade_value = None, transaction_type = ''sell'' \<rparr>,
      \<lparr> shares = Some 700, trade_value = Some 400000, transaction_type = ''buy'' \<rparr>]"

definition buying_data :: data where
  "buying_data = [''insider_trades'' \<mapsto> PTrades buying_trades]"

text \<open>A context holding only what the portfolio manager needs.\<close>

definition make_context :: "real \<Rightarrow> int \<Rightarrow> real \<Rightarrow> real \<Rightarrow> data" where
  "make_context cash_held shares_held price position_size =
     [''portfolio'' \<mapsto> PPortfolio \<lparr> cash = cash_held, stock = shares_held \<rparr>,
      ''prices'' \<mapsto> PPrices [\<lparr> close = price \<rparr>],
      ''position_size'' \<mapsto> PNum position_size]"

definition plain_context :: data where
  "plain_context = make_context 1000 5 30 0.5"

definition noisy_context :: data where
  "noisy_context =
     (make_context 1000 5 30 0.5)
       (''fundamentals_signal'' \<mapsto> PStr ''bearish'',
        ''fundamentals_confidence'' \<mapsto> PNum 0.9,
        ''risk_signal'' \<mapsto> PStr ''bearish'')"

section \<open>Risk manager: the cap, the decision rule and the sub-scores\<close>

lemmas risk_defs = risk_management_agent_def first_metrics_def upstream_signals_def
  get_default_def as_num_def scale_position_def total_risk_score_def market_risk_def
  size_risk_def leverage_risk_def liquidity_risk_def

lemma sum_conf_numeric:
  "sum_conf tag (map (\<lambda>sc. (fst sc, PNum (snd sc))) sigs) = Some (spec_weight tag sigs)"
  by (induction sigs) (auto simp: spec_weight_def as_num_def)

text \<open>
  C1. Whenever the risk manager returns, the position size it publishes is a number that
  is at most 0.8, whatever the metrics and the upstream signals are.
\<close>

theorem risk_position_size_capped:
  "risk_management_agent d = Some out \<Longrightarrow>
     \<exists>p. out ''position_size'' = Some (PNum p) \<and> p \<le> 0.8"
  by (auto simp: risk_management_agent_def Let_def split: Option.bind_splits prod.splits)

theorem risk_position_size_capped_witness:
  "risk_management_agent adversarial_data =
     Some (adversarial_data(''risk_signal'' \<mapsto> PStr ''bullish'', ''position_size'' \<mapsto> PNum 0.4))
   \<and> (\<exists>p. (adversarial_data(''risk_signal'' \<mapsto> PStr ''bullish'', ''position_size'' \<mapsto> PNum 0.4))
            ''position_size'' = Some (PNum p) \<and> p \<le> 0.8)"
proof -
  have run: "risk_management_agent adversarial_data =
     Some (adversarial_data(''risk_signal'' \<mapsto> PStr ''bullish'', ''position_size'' \<mapsto> PNum 0.4))"
    by (simp add: risk_defs adversarial_data_def adversarial_metrics_def)
  from risk_position_size_capped [OF run] run show ?thesis by blast
qed

text \<open>
  The bounds the four sub-scores do satisfy on every input, and the ones that need the
  input to be in range.
\<close>

lemma risk_scores_one_sided:
  "0 \<le> market_risk b \<and> market_risk b \<le> 1 \<and> 0 \<le> size_risk mc
   \<and> leverage_risk de \<le> 1 \<and> 0 \<le> liquidity_risk cr"
  by (simp add: market_risk_def size_risk_def leverage_risk_def liquidity_risk_def)

lemma risk_scores_in_range:
  "0 \<le> mc \<Longrightarrow> size_risk mc \<le> 1"
  "0 \<le> de \<Longrightarrow> 0 \<le> leverage_risk de"
  "0 \<le> cr \<Longrightarrow> liquidity_risk cr \<le> 1"
  by (simp_all add: size_risk_def leverage_risk_def liquidity_risk_def)

text \<open>
  C6. The sub-scores are not confined to the interval from 0 to 1: a market cap of -1e12
  gives size risk 2, a debt to equity of -4 gives leverage risk -2, and a current ratio
  of -10 gives liquidity risk 6. Only the market risk is clamped on both sides.
\<close>

theorem risk_scores_out_of_range:
  "size_risk (- 1000000000000) = 2 \<and> leverage_risk (- 4) = - 2 \<and> liquidity_risk (- 10) = 6"
  by (simp add: size_risk_def leverage_risk_def liquidity_risk_def)

text \<open>
  C7. With a market cap of -5e12 (size risk 6, total risk 1.2, base position -0.2) and
  one bullish upstream signal of confidence 1, the published position size is -0.2.
\<close>

theorem negative_position_published:
  "size_risk (- 5000000000000) = 6
   \<and> risk_management_agent negative_cap_data =
       Some (negative_cap_data(''risk_signal'' \<mapsto> PStr ''bullish'',
                               ''position_size'' \<mapsto> PNum (- 0.2)))"
  by (simp add: risk_defs negative_cap_data_def negative_cap_metrics_def)

text \<open>
  With a market cap and a current ratio that are not negative and confidences that are
  not negative, every sub-score that enters with a positive weight is at most 1, the
  base position is not negative, and the published position lies between 0 and 0.8.
\<close>

lemma risk_agent_on_numeric:
  assumes "first_metrics d = Some m"
    and "m ''beta'' = Some b" and "m ''market_cap'' = Some mc"
    and "m ''debt_to_equity'' = Some de" and "m ''current_ratio'' = Some cr"
    and "upstream_signals d = map (\<lambda>sc. (fst sc, PNum (snd sc))) sigs"
  shows "risk_management_agent d =
          Some (d(''risk_signal'' \<mapsto>
                    PStr (fst (spec_risk_decision
                      (1 - spec_total_risk (market_risk b) (size_risk mc)
                             (leverage_risk de) (liquidity_risk cr)) sigs)),
                  ''position_size'' \<mapsto>
                    PNum (min 0.8 (snd (spec_risk_decision
                      (1 - spec_total_risk (market_risk b) (size_risk mc)
                             (leverage_risk de) (liquidity_risk cr)) sigs)))))"
proof -
  have tot: "total_risk_score x y z w = spec_total_risk x y z w" for x y z w
    by (simp add: total_risk_score_def spec_total_risk_def)
  show ?thesis
    using assms
    by (simp add: tot risk_management_agent_def sum_conf_numeric Let_def
        spec_risk_decision_def scale_position_def)
qed

lemma spec_weight_nonneg:
  assumes "\<forall>sc \<in> set sigs. 0 \<le> snd sc"
  shows "0 \<le> spec_weight tag sigs"
  unfolding spec_weight_def using assms by (intro sum_list_nonneg) auto

lemma spec_risk_decision_nonneg:
  assumes "0 \<le> base" and "\<forall>sc \<in> set sigs. 0 \<le> snd sc"
  shows "0 \<le> snd (spec_risk_decision base sigs)"
  using assms spec_weight_nonneg [OF assms(2), of "''bullish''"]
    spec_weight_nonneg [OF assms(2), of "''bearish''"]
  by (simp add: spec_risk_decision_def Let_def)

lemma base_position_nonneg:
  assumes "0 \<le> mc" and "0 \<le> cr"
  shows "0 \<le> 1 - spec_total_risk (market_risk b) (size_risk mc)
                     (leverage_risk de) (liquidity_risk cr)"
proof -
  have "market_risk b \<le> 1" "leverage_risk de \<le> 1"
    using risk_scores_one_sided [of b mc de cr] by simp_all
  moreover have "size_risk mc \<le> 1" "liquidity_risk cr \<le> 1"
    using assms by (simp_all add: risk_scores_in_range)
  ultimately show ?thesis by (simp add: spec_total_risk_def)
qed

lemma position_nonneg_in_range:
  assumes "first_metrics d = Some m"
    and "m ''beta'' = Some b" and "m ''market_cap'' = Some mc"
    and "m ''debt_to_equity'' = Some de" and "m ''current_ratio'' = Some cr"
    and "upstream_signals d = map (\<lambda>sc. (fst sc, PNum (snd sc))) sigs"
    and "0 \<le> mc" and "0 \<le> cr" and "\<forall>sc \<in> set sigs. 0 \<le> snd sc"
  shows "\<exists>out p. risk_management_agent d = Some out
           \<and> out ''position_size'' = Some (PNum p) \<and> 0 \<le> p \<and> p \<le> 0.8"
proof -
  have "0 \<le> snd (spec_risk_decision
                (1 - spec_total_risk (market_risk b) (size_risk mc)
                       (leverage_risk de) (liquidity_risk cr)) sigs)"
    using base_position_nonneg [OF assms(7,8)] assms(9)
    by (rule spec_risk_decision_nonneg)
  then show ?thesis
    unfolding risk_agent_on_numeric [OF assms(1-6)] by simp
qed

section \<open>Risk manager: the decision rule over any arithmetic\<close>

lemma tagged_confidences_numeric:
  "tagged_confidences tag (map (\<lambda>sc. (fst sc, PNum (snd sc))) sigs)
     = Some (map snd (filter (\<lambda>sc. fst sc = PStr tag) sigs))"
  by (induction sigs) (auto simp: as_num_def)

lemma sum_conf_fp_numeric:
  "sum_conf_fp ar tag (map (\<lambda>sc. (fst sc, PNum (snd sc))) sigs)
     = Some (spec_weight_fp ar tag sigs)"
  by (simp add: sum_conf_fp_def spec_weight_fp_def tagged_confidences_numeric)

lemma get_default_confidence:
  "spec_confidence ar d k c \<Longrightarrow> get_default d k (PNum (lit ar 0.5)) = PNum c"
  by (auto simp: spec_confidence_def get_default_def split: option.splits)

lemma upstream_signals_fp_numeric:
  assumes "spec_confidence ar d ''fundamentals_confidence'' c1"
    and "spec_confidence ar d ''technical_confidence'' c2"
    and "spec_confidence ar d ''sentiment_confidence'' c3"
    and "spec_confidence ar d ''valuation_confidence'' c4"
  shows "upstream_signals_fp ar d
           = map (\<lambda>sc. (fst sc, PNum (snd sc))) (spec_input_signals d c1 c2 c3 c4)"
  unfolding upstream_signals_fp_def spec_input_signals_def
    assms [THEN get_default_confidence]
  by (simp add: get_default_def)

lemma risk_agent_fp_on_numeric:
  assumes "first_metrics d = Some m"
    and "m ''beta'' = Some b" and "m ''market_cap'' = Some mc"
    and "m ''debt_to_equity'' = Some de" and "m ''current_ratio'' = Some cr"
    and "spec_confidence ar d ''fundamentals_confidence'' c1"
    and "spec_confidence ar d ''technical_confidence'' c2"
    and "spec_confidence ar d ''sentiment_confidence'' c3"
    and "spec_confidence ar d ''valuation_confidence'' c4"
  shows "risk_management_agent_fp ar d =
           (let r = spec_risk_decision_fp ar
                      (fsub ar (lit ar 1.0)
                         (spec_total_risk_fp ar (market_risk_fp ar b) (size_risk_fp ar mc)
                            (leverage_risk_fp ar de) (liquidity_risk_fp ar cr)))
                      (spec_input_signals d c1 c2 c3 c4)
            in Some (d(''risk_signal'' \<mapsto> PStr (fst r),
                       ''position_size'' \<mapsto> PNum (py_min ar (lit ar 0.8) (snd r)))))"
proof -
  have tot: "total_risk_score_fp ar x y z w = spec_total_risk_fp ar x y z w" for x y z w
    by (simp add: total_risk_score_fp_def spec_total_risk_fp_def)
  show ?thesis
    using assms(1-5)
    by (simp add: risk_management_agent_fp_def upstream_signals_fp_numeric [OF assms(6-9)]
        sum_conf_fp_numeric tot Let_def spec_risk_decision_fp_def scale_position_fp_def)
qed

lemmas exact_simps = exact_def py_min_def py_max_def

text \<open>
  C2. For every arithmetic and every context whose first metrics dictionary holds beta,
  market cap, debt to equity and current ratio and whose confidences under the keys
  fundamentals, technical, sentiment and valuation are numbers (0.5 where a key is absent,
  neutral where a signal is absent), the risk manager computes the total risk
  market * 0.3 + size * 0.2 + leverage * 0.3 + liquidity * 0.2 and the base position
  1 - total risk, sums the confidences tagged bullish and those tagged bearish, and
  publishes bullish with base position times min(1.0, bullish weight) when the bullish
  weight is larger, bearish symmetrically, neutral with 0 on a tie, the position capped
  at 0.8. For beta 4, market cap 2e12, debt to equity 0 and current ratio 3 the sub-scores
  are 1, 0, 0, 0, the total risk is 0.3 and the base position 0.7.
\<close>

theorem risk_rule_any_arithmetic:
  "(first_metrics d = Some m \<and> m ''beta'' = Some b \<and> m ''market_cap'' = Some mc
      \<and> m ''debt_to_equity'' = Some de \<and> m ''current_ratio'' = Some cr
      \<and> spec_confidence ar d ''fundamentals_confidence'' c1
      \<and> spec_confidence ar d ''technical_confidence'' c2
      \<and> spec_confidence ar d ''sentiment_confidence'' c3
      \<and> spec_confidence ar d ''valuation_confidence'' c4
    \<longrightarrow> risk_management_agent_fp ar d =
          (let r = spec_risk_decision_fp ar
                     (fsub ar (lit ar 1.0)
                        (spec_total_risk_fp ar (market_risk_fp ar b) (size_risk_fp ar mc)
                           (leverage_risk_fp ar de) (liquidity_risk_fp ar cr)))
                     (spec_input_signals d c1 c2 c3 c4)
           in Some (d(''risk_signal'' \<mapsto> PStr (fst r),
                      ''position_size'' \<mapsto> PNum (py_min ar (lit ar 0.8) (snd r))))))
   \<and> market_risk_fp exact 4 = 1 \<and> size_risk_fp exact 2000000000000 = 0
   \<and> leverage_risk_fp exact 0 = 0 \<and> liquidity_risk_fp exact 3 = 0
   \<and> total_risk_score_fp exact (market_risk_fp exact 4) (size_risk_fp exact 2000000000000)
        (leverage_risk_fp exact 0) (liquidity_risk_fp exact 3) = 0.3
   \<and> fsub exact (lit exact 1.0)
        (total_risk_score_fp exact (market_risk_fp exact 4) (size_risk_fp exact 2000000000000)
           (leverage_risk_fp exact 0) (liquidity_risk_fp exact 3)) = 0.7"
proof -
  have scen: "market_risk_fp exact 4 = 1" "size_risk_fp exact 2000000000000 = 0"
    "leverage_risk_fp exact 0 = 0" "liquidity_risk_fp exact 3 = 0"
    by (simp_all add: market_risk_fp_def size_risk_fp_def leverage_risk_fp_def
        liquidity_risk_fp_def exact_simps)
  have tot: "total_risk_score_fp exact 1 0 0 0 = 0.3"
    by (simp add: total_risk_score_fp_def exact_simps)
  have base: "fsub exact (lit exact 1.0) (total_risk_score_fp exact 1 0 0 0) = 0.7"
    by (simp add: tot) (simp add: exact_simps)
  have rule: "first_metrics d = Some m \<and> m ''beta'' = Some b \<and> m ''market_cap'' = Some mc
      \<and> m ''debt_to_equity'' = Some de \<and> m ''current_ratio'' = Some cr
      \<and> spec_confidence ar d ''fundamentals_confidence'' c1
      \<and> spec_confidence ar d ''technical_confidence'' c2
      \<and> spec_confidence ar d ''sentiment_confidence'' c3
      \<and> spec_confidence ar d ''valuation_confidence'' c4
    \<longrightarrow> risk_management_agent_fp ar d =
          (let r = spec_risk_decision_fp ar
                     (fsub ar (lit ar 1.0)
                        (spec_total_risk_fp ar (market_risk_fp ar b) (size_risk_fp ar mc)
                           (leverage_risk_fp ar de) (liquidity_risk_fp ar cr)))
                     (spec_input_signals d c1 c2 c3 c4)
           in Some (d(''risk_signal'' \<mapsto> PStr (fst r),
                      ''position_size'' \<mapsto> PNum (py_min ar (lit ar 0.8) (snd r)))))"
    using risk_agent_fp_on_numeric [of d m b mc de cr ar c1 c2 c3 c4] by blast
  have tot': "total_risk_score_fp exact (market_risk_fp exact 4)
        (size_risk_fp exact 2000000000000) (leverage_risk_fp exact 0)
        (liquidity_risk_fp exact 3) = 0.3"
    by (simp only: scen tot)
  have base': "fsub exact (lit exact 1.0)
        (total_risk_score_fp exact (market_risk_fp exact 4) (size_risk_fp exact 2000000000000)
           (leverage_risk_fp exact 0) (liquidity_risk_fp exact 3)) = 0.7"
    by (simp only: scen base)
  from rule scen tot' base' show ?thesis by (intro conjI)
qed

theorem risk_rule_any_arithmetic_witness:
  "risk_management_agent_fp exact scenario_risk_data =
     Some (scenario_risk_data(''risk_signal'' \<mapsto> PStr ''bullish'',
                              ''position_size'' \<mapsto> PNum 0.7))"
proof -
  have m: "first_metrics scenario_risk_data = Some scenario_risk_metrics"
    by (simp add: first_metrics_def scenario_risk_data_def)
  have k: "scenario_risk_metrics ''beta'' = Some 4"
    "scenario_risk_metrics ''market_cap'' = Some 2000000000000"
    "scenario_risk_metrics ''debt_to_equity'' = Some 0"
    "scenario_risk_metrics ''current_ratio'' = Some 3"
    by (simp_all add: scenario_risk_metrics_def)
  have c: "spec_confidence exact scenario_risk_data ''fundamentals_confidence'' 0.6"
    "spec_confidence exact scenario_risk_data ''technical_confidence'' 0.25"
    "spec_confidence exact scenario_risk_data ''sentiment_confidence'' 0.75"
    "spec_confidence exact scenario_risk_data ''valuation_confidence'' 0.5"
    by (simp_all add: spec_confidence_def scenario_risk_data_def exact_def)
  have v: "spec_risk_decision_fp exact
             (fsub exact (lit exact 1.0)
                (spec_total_risk_fp exact (market_risk_fp exact 4)
                   (size_risk_fp exact 2000000000000) (leverage_risk_fp exact 0)
                   (liquidity_risk_fp exact 3)))
             (spec_input_signals scenario_risk_data 0.6 0.25 0.75 0.5)
           = (''bullish'', 0.7)"
    by (simp add: spec_risk_decision_fp_def spec_weight_fp_def spec_total_risk_fp_def
        spec_input_signals_def scenario_risk_data_def market_risk_fp_def size_risk_fp_def
        leverage_risk_fp_def liquidity_risk_fp_def exact_simps)
  have cap: "py_min exact (lit exact 0.8) 0.7 = 0.7"
    by (simp add: exact_simps)
  from risk_rule_any_arithmetic [THEN conjunct1, rule_format,
      of scenario_risk_data scenario_risk_metrics 4 2000000000000 0 3 exact
        "0.6" "0.25" "0.75" "0.5"] m k c
  have "risk_management_agent_fp exact scenario_risk_data =
          (let r = spec_risk_decision_fp exact
                     (fsub exact (lit exact 1.0)
                        (spec_total_risk_fp exact (market_risk_fp exact 4)
                           (size_risk_fp exact 2000000000000) (leverage_risk_fp exact 0)
                           (liquidity_risk_fp exact 3)))
                     (spec_input_signals scenario_risk_data 0.6 0.25 0.75 0.5)
           in Some (scenario_risk_data(''risk_signal'' \<mapsto> PStr (fst r),
                      ''position_size'' \<mapsto> PNum (py_min exact (lit exact 0.8) (snd r)))))"
    by blast
  then show ?thesis by (simp only: v Let_def fst_conv snd_conv cap)
qed

section \<open>Counting lemmas\<close>

lemma length_filter_count: "length (filter (\<lambda>s. s = t) xs) = count_list xs t"
  by (induction xs) auto

lemma count_buys:
  "length (filter (\<lambda>t. transaction_type t = ''buy'') ts)
     = count_list (map transaction_type ts) ''buy''"
  by (induction ts) auto

section \<open>Fundamentals agent: the rule over any arithmetic\<close>

lemma aggregate_five_fp:
  "length xs = 5 \<Longrightarrow>
   aggregate_signals_fp ar xs =
     (let bullish_count = count_list xs ''bullish'';
          bearish_count = count_list xs ''bearish''
      in if bullish_count > bearish_count \<and> bullish_count \<ge> 3
           then (''bullish'',
                 py_min ar (lit ar 1.0)
                   (fdiv ar (int_num ar (int bullish_count - int bearish_count))
                            (int_num ar 5)))
         else if bearish_count > bullish_count \<and> bearish_count \<ge> 3
           then (''bearish'',
                 py_min ar (lit ar 1.0)
                   (fdiv ar (int_num ar (int bearish_count - int bullish_count))
                            (int_num ar 5)))
         else (''neutral'', lit ar 0.5))"
  unfolding aggregate_signals_fp_def length_filter_count Let_def by simp

lemma profitability_spec_fp:
  "profitability_signal_fp ar a b c
     = spec_cut (spec_score [flt ar (lit ar 0.15) a, flt ar (lit ar 0.20) b,
                             flt ar (lit ar 0.15) c])"
  unfolding profitability_signal_fp_def spec_cut_def spec_score_def Let_def by simp

lemma growth_spec_fp:
  "growth_signal_fp ar a b c
     = spec_cut (spec_score [flt ar (lit ar 0.10) a, flt ar (lit ar 0.10) b,
                             flt ar (lit ar 0.10) c])"
  unfolding growth_signal_fp_def spec_cut_def spec_score_def Let_def by simp

lemma health_spec_fp:
  "health_signal_fp ar a b c
     = spec_cut (spec_score [flt ar a (lit ar 1.0), flt ar (lit ar 1.5) b,
                             flt ar (lit ar 1.0) c])"
  unfolding health_signal_fp_def spec_cut_def spec_score_def Let_def by simp

lemma cash_flow_spec_fp:
  "cash_flow_signal_fp ar f e =
     (if flt ar (fmul ar e (lit ar 0.8)) f \<and> flt ar (int_num ar 0) f then ''bullish''
      else if \<not> flt ar (fmul ar e (lit ar 0.8)) f \<and> \<not> flt ar (int_num ar 0) f
        then ''bearish''
      else ''neutral'')"
  unfolding cash_flow_signal_fp_def Let_def by simp

lemma valuation_spec_fp:
  "valuation_signal_fp ar a b c
     = spec_cut (spec_score [flt ar (int_num ar 0) a \<and> flt ar a (int_num ar 30),
                             flt ar b (int_num ar 5), flt ar c (int_num ar 10)])"
  unfolding valuation_signal_fp_def spec_cut_def spec_score_def Let_def by simp

lemma code_sub_signals_fp:
  "[profitability_signal_fp ar (fm_return_on_equity fm) (fm_net_margin fm)
      (fm_operating_margin fm),
    growth_signal_fp ar (fm_revenue_growth fm) (fm_earnings_growth fm)
      (fm_book_value_growth fm),
    health_signal_fp ar (fm_debt_to_equity fm) (fm_current_ratio fm) (fm_quick_ratio fm),
    cash_flow_signal_fp ar (fm_free_cash_flow_per_share fm) (fm_earnings_per_share fm),
    valuation_signal_fp ar (fm_price_to_earnings fm) (fm_price_to_book fm)
      (fm_price_to_sales fm)]
   = spec_sub_signals_fp ar fm"
  by (simp only: spec_sub_signals_fp_def profitability_spec_fp growth_spec_fp health_spec_fp
      cash_flow_spec_fp valuation_spec_fp)

lemma fundamentals_fp_on_complete:
  assumes "first_metrics d = Some m" and "holds_metrics m fm"
  shows "fundamentals_agent_fp ar d =
           Some (d(''fundamentals_signal'' \<mapsto> PStr (fst (spec_fundamentals_fp ar fm)),
                   ''fundamentals_confidence'' \<mapsto> PNum (snd (spec_fundamentals_fp ar fm))))"
proof -
  have len: "length (spec_sub_signals_fp ar fm) = 5"
    by (simp add: spec_sub_signals_fp_def)
  have agg: "aggregate_signals_fp ar (spec_sub_signals_fp ar fm) = spec_fundamentals_fp ar fm"
    unfolding aggregate_five_fp [OF len] spec_fundamentals_fp_def ..
  have "fundamentals_agent_fp ar d =
          (let (final_signal, confidence) = aggregate_signals_fp ar
             [profitability_signal_fp ar (fm_return_on_equity fm) (fm_net_margin fm)
                (fm_operating_margin fm),
              growth_signal_fp ar (fm_revenue_growth fm) (fm_earnings_growth fm)
                (fm_book_value_growth fm),
              health_signal_fp ar (fm_debt_to_equity fm) (fm_current_ratio fm)
                (fm_quick_ratio fm),
              cash_flow_signal_fp ar (fm_free_cash_flow_per_share fm)
                (fm_earnings_per_share fm),
              valuation_signal_fp ar (fm_price_to_earnings fm) (fm_price_to_book fm)
                (fm_price_to_sales fm)]
           in Some (d(''fundamentals_signal'' \<mapsto> PStr final_signal,
                      ''fundamentals_confidence'' \<mapsto> PNum confidence)))"
    using assms unfolding holds_metrics_def fundamentals_agent_fp_def by (simp add: Let_def)
  then show ?thesis
    by (simp only: code_sub_signals_fp agg Let_def case_prod_beta)
qed

text \<open>
  C3. For every arithmetic and every complete metrics record the fundamentals agent
  publishes the signal and the confidence of the specification's rule: five sub-signals
  from the threshold tests and cut points, bullish when the bullish count exceeds the
  bearish count and is at least 3, with confidence min(1.0, difference / 5), bearish
  symmetrically, otherwise neutral with confidence 0.5. On the scenario metrics every
  sub-signal is bullish and the final signal is bullish with confidence 1.
\<close>

theorem fundamentals_rule_any_arithmetic:
  "(first_metrics d = Some m \<and> holds_metrics m fm \<longrightarrow>
      fundamentals_agent_fp ar d =
        Some (d(''fundamentals_signal'' \<mapsto> PStr (fst (spec_fundamentals_fp ar fm)),
                ''fundamentals_confidence'' \<mapsto> PNum (snd (spec_fundamentals_fp ar fm)))))
   \<and> profitability_signal_fp exact 0.20 0.25 0.18 = ''bullish''
   \<and> growth_signal_fp exact 0.15 0.12 0.05 = ''bullish''
   \<and> health_signal_fp exact 0.5 2.0 1.2 = ''bullish''
   \<and> cash_flow_signal_fp exact 2.0 2.0 = ''bullish''
   \<and> valuation_signal_fp exact 20 3 5 = ''bullish''
   \<and> aggregate_signals_fp exact [''bullish'', ''bullish'', ''bullish'', ''bullish'', ''bullish'']
       = (''bullish'', 1)"
proof -
  have "profitability_signal_fp exact 0.20 0.25 0.18 = ''bullish''"
    by (simp add: profitability_signal_fp_def exact_def)
  moreover have "growth_signal_fp exact 0.15 0.12 0.05 = ''bullish''"
    by (simp add: growth_signal_fp_def exact_def)
  moreover have "health_signal_fp exact 0.5 2.0 1.2 = ''bullish''"
    by (simp add: health_signal_fp_def exact_def)
  moreover have "cash_flow_signal_fp exact 2.0 2.0 = ''bullish''"
    by (simp add: cash_flow_signal_fp_def exact_def)
  moreover have "valuation_signal_fp exact 20 3 5 = ''bullish''"
    by (simp add: valuation_signal_fp_def exact_def)
  moreover have "aggregate_signals_fp exact
       [''bullish'', ''bullish'', ''bullish'', ''bullish'', ''bullish''] = (''bullish'', 1)"
    by (simp add: aggregate_signals_fp_def exact_simps)
  ultimately show ?thesis using fundamentals_fp_on_complete by blast
qed

theorem fundamentals_rule_any_arithmetic_witness:
  "fundamentals_agent_fp exact scenario_data =
     Some (scenario_data(''fundamentals_signal'' \<mapsto> PStr ''bullish'',
                         ''fundamentals_confidence'' \<mapsto> PNum 1))"
proof -
  have m: "first_metrics scenario_data = Some scenario_metrics_dict"
    by (simp add: first_metrics_def scenario_data_def)
  have h: "holds_metrics scenario_metrics_dict scenario_metrics"
    by (simp add: holds_metrics_def scenario_metrics_dict_def scenario_metrics_def)
  have s: "spec_fundamentals_fp exact scenario_metrics = (''bullish'', 1)"
    by (simp add: spec_fundamentals_fp_def spec_sub_signals_fp_def scenario_metrics_def
        spec_cut_def spec_score_def exact_simps)
  from fundamentals_rule_any_arithmetic [THEN conjunct1, rule_format,
      of scenario_data scenario_metrics_dict scenario_metrics exact] m h
  have "fundamentals_agent_fp exact scenario_data =
        Some (scenario_data(''fundamentals_signal'' \<mapsto>
                  PStr (fst (spec_fundamentals_fp exact scenario_metrics)),
                ''fundamentals_confidence'' \<mapsto>
                  PNum (snd (spec_fundamentals_fp exact scenario_metrics))))"
    by blast
  then show ?thesis by (simp only: s fst_conv snd_conv)
qed

section \<open>Sentiment agent: the rule over any arithmetic\<close>

lemma dropna_fp_present:
  "dropna_fp ar (map trade_value ts) = present_values ar ts"
  unfolding present_values_def
  by (induction ts) (auto split: option.splits)

lemma insider_analysis_fp_spec:
  "snd (insider_analysis_fp ar ts) = spec_sentiment_fp ar ts"
proof (cases "ts = []")
  case True
  then show ?thesis by (simp add: insider_analysis_fp_def spec_sentiment_fp_def)
next
  case False
  then show ?thesis
    by (simp add: insider_analysis_fp_def spec_sentiment_fp_def Let_def dropna_fp_present
        count_buys spec_buy_ratio_fp_def spec_total_value_fp_def)
qed

text \<open>
  C5. For every arithmetic and every list of insider trades the sentiment agent publishes
  the signal and the confidence of the specification's rule: neutral with 0.5 on the empty
  list; otherwise, with the buy ratio and the sum of the values, bullish with
  min(1.0, buy ratio) when the ratio exceeds 0.7 and the total exceeds 1,000,000, bearish
  with min(1.0, 1 - buy ratio) when the ratio is below 0.3 and the total exceeds 1,000,000,
  else neutral with 0.5. On the empty list every aggregate metric is 0.
\<close>

theorem sentiment_rule_any_arithmetic:
  "(d ''insider_trades'' = Some (PTrades ts) \<longrightarrow>
      sentiment_agent_fp ar d =
        Some (d(''sentiment_signal'' \<mapsto> PStr (fst (spec_sentiment_fp ar ts)),
                ''sentiment_confidence'' \<mapsto> PNum (snd (spec_sentiment_fp ar ts)))))
   \<and> insider_analysis_fp ar [] =
       (\<lparr> im_total_transactions = 0, im_avg_transaction_size = int_num ar 0,
          im_total_value = int_num ar 0, im_buy_ratio = int_num ar 0 \<rparr>,
        ''neutral'', lit ar 0.5)"
proof -
  have "sentiment_agent_fp ar d =
        Some (d(''sentiment_signal'' \<mapsto> PStr (fst (spec_sentiment_fp ar ts)),
                ''sentiment_confidence'' \<mapsto> PNum (snd (spec_sentiment_fp ar ts))))"
    if "d ''insider_trades'' = Some (PTrades ts)"
    using that insider_analysis_fp_spec [of ar ts]
    by (cases "insider_analysis_fp ar ts") (simp add: sentiment_agent_fp_def case_prod_beta)
  moreover have "insider_analysis_fp ar [] =
       (\<lparr> im_total_transactions = 0, im_avg_transaction_size = int_num ar 0,
          im_total_value = int_num ar 0, im_buy_ratio = int_num ar 0 \<rparr>,
        ''neutral'', lit ar 0.5)"
    by (simp add: insider_analysis_fp_def)
  ultimately show ?thesis by blast
qed

theorem sentiment_rule_any_arithmetic_witness:
  "sentiment_agent_fp exact buying_data =
     Some (buying_data(''sentiment_signal'' \<mapsto> PStr ''bullish'',
                       ''sentiment_confidence'' \<mapsto> PNum 0.75))"
proof -
  have t: "buying_data ''insider_trades'' = Some (PTrades buying_trades)"
    by (simp add: buying_data_def)
  have s: "spec_sentiment_fp exact buying_trades = (''bullish'', 0.75)"
    by (simp add: spec_sentiment_fp_def spec_buy_ratio_fp_def spec_total_value_fp_def
        present_values_def buying_trades_def exact_simps)
  from sentiment_rule_any_arithmetic [THEN conjunct1, rule_format,
      of buying_data buying_trades exact] t
  have "sentiment_agent_fp exact buying_data =
        Some (buying_data(''sentiment_signal'' \<mapsto>
                  PStr (fst (spec_sentiment_fp exact buying_trades)),
                ''sentiment_confidence'' \<mapsto>
                  PNum (snd (spec_sentiment_fp exact buying_trades))))"
    by blast
  then show ?thesis by (simp only: s fst_conv snd_conv)
qed

section \<open>Portfolio manager: the order\<close>

lemmas pm_defs = portfolio_management_agent_def latest_close_def get_default_def as_num_def
  target_shares_of_def choose_action_def py_int_def

lemma final_order_eq:
  assumes "d ''portfolio'' = Some (PPortfolio p)"
    and "latest_close d = Some price"
    and "as_num (get_default d ''position_size'' (PNum 0)) = Some ps"
    and "upstream_numeric d"
  shows "final_order d =
           Some (choose_action
                   (target_shares_of ((cash p + real_of_int (stock p) * price) * ps) price)
                   (stock p))"
  using assms
  by (auto simp: final_order_def portfolio_management_agent_def upstream_numeric_def Let_def
      case_prod_beta)

lemma final_order_char:
  "final_order d =
     (if upstream_numeric d then
        (case d ''portfolio'' of
           Some (PPortfolio p) \<Rightarrow>
             (case latest_close d of
                None \<Rightarrow> None
              | Some price \<Rightarrow>
                  (case as_num (get_default d ''position_size'' (PNum 0)) of
                     None \<Rightarrow> None
                   | Some ps \<Rightarrow>
                       Some (choose_action
                         (target_shares_of ((cash p + real_of_int (stock p) * price) * ps) price)
                         (stock p))))
         | _ \<Rightarrow> None)
      else None)"
  by (auto simp: final_order_def portfolio_management_agent_def upstream_numeric_def Let_def
      case_prod_beta split: option.splits pyval_of.splits Option.bind_splits)

lemma agree_same_inputs:
  assumes "d1 ''portfolio'' = d2 ''portfolio''" and "d1 ''prices'' = d2 ''prices''"
    and "d1 ''position_size'' = d2 ''position_size''"
  shows "latest_close d1 = latest_close d2"
    and "get_default d1 ''position_size'' v = get_default d2 ''position_size'' v"
  using assms by (simp_all add: latest_close_def get_default_def)

text \<open>
  C8. Two contexts that agree on the portfolio, the prices and the position size get the
  same action and quantity from the portfolio manager, however their upstream signals
  and confidences differ: whenever both runs return, and, when the confidences present
  are numbers, also in whether they return.
\<close>

theorem order_ignores_upstream:
  assumes "d1 ''portfolio'' = d2 ''portfolio''" and "d1 ''prices'' = d2 ''prices''"
    and "d1 ''position_size'' = d2 ''position_size''"
  shows "(upstream_numeric d1 \<and> upstream_numeric d2 \<longrightarrow> final_order d1 = final_order d2)
       \<and> (final_order d1 \<noteq> None \<and> final_order d2 \<noteq> None \<longrightarrow> final_order d1 = final_order d2)"
proof -
  have same: "final_order d1 = final_order d2"
    if "upstream_numeric d1" and "upstream_numeric d2"
    using that assms(1) agree_same_inputs [OF assms]
    by (simp add: final_order_char cong: option.case_cong pyval_of.case_cong)
  moreover have "upstream_numeric d" if "final_order d \<noteq> None" for d
    using that by (simp add: final_order_char split: if_splits)
  ultimately show ?thesis by blast
qed

lemma make_context_inputs:
  "make_context c s price ps ''portfolio'' = Some (PPortfolio \<lparr> cash = c, stock = s \<rparr>)"
  "latest_close (make_context c s price ps) = Some price"
  "as_num (get_default (make_context c s price ps) ''position_size'' (PNum 0)) = Some ps"
  "upstream_numeric (make_context c s price ps)"
  by (simp_all add: make_context_def latest_close_def get_default_def as_num_def
      upstream_numeric_def)

theorem order_ignores_upstream_witness:
  "upstream_numeric plain_context \<and> upstream_numeric noisy_context
   \<and> final_order plain_context = final_order noisy_context"
proof -
  have a: "plain_context ''portfolio'' = noisy_context ''portfolio''"
    "plain_context ''prices'' = noisy_context ''prices''"
    "plain_context ''position_size'' = noisy_context ''position_size''"
    by (simp_all add: plain_context_def noisy_context_def)
  have n: "upstream_numeric plain_context" "upstream_numeric noisy_context"
    by (simp_all add: plain_context_def noisy_context_def make_context_def
        upstream_numeric_def get_default_def as_num_def)
  from order_ignores_upstream [OF a] n show ?thesis by blast
qed

text \<open>
  C10, amended. For a portfolio with stock and cash that are not negative, any price
  and a position size that is not negative, a sell order never exceeds the held shares,
  and at price 0 it is exactly the held shares.
\<close>

theorem sell_at_most_held:
  assumes "d ''portfolio'' = Some (PPortfolio p)"
    and "0 \<le> stock p" and "0 \<le> cash p"
    and "latest_close d = Some price"
    and "as_num (get_default d ''position_size'' (PNum 0)) = Some ps" and "0 \<le> ps"
    and "final_order d = Some (''sell'', q)"
  shows "q \<le> stock p \<and> (price = 0 \<longrightarrow> q = stock p)"
proof -
  have num: "upstream_numeric d"
    using assms(7) by (simp add: final_order_char split: if_splits)
  have ord: "choose_action
               (target_shares_of ((cash p + real_of_int (stock p) * price) * ps) price)
               (stock p) = (''sell'', q)"
    using final_order_eq [OF assms(1,4,5) num] assms(7) by simp
  have nonneg: "0 \<le> target_shares_of ((cash p + real_of_int (stock p) * price) * ps) price"
  proof (cases "price > 0")
    case True
    with assms(2,3,6) have "0 \<le> (cash p + real_of_int (stock p) * price) * ps / price"
      by simp
    with True show ?thesis by (simp add: target_shares_of_def py_int_def)
  next
    case False
    then show ?thesis by (simp add: target_shares_of_def)
  qed
  have zero: "target_shares_of v 0 = 0" for v
    by (simp add: target_shares_of_def)
  from ord nonneg zero show ?thesis
    by (auto simp: choose_action_def split: if_splits)
qed

theorem sell_at_most_held_witness:
  "final_order (make_context 100 7 0 0.5) = Some (''sell'', 7)
   \<and> (7::int) \<le> stock \<lparr> cash = 100, stock = 7 \<rparr>"
proof -
  have run: "final_order (make_context 100 7 0 0.5) = Some (''sell'', 7)"
    by (simp add: final_order_def pm_defs make_context_def)
  note inp = make_context_inputs [of 100 7 0 "0.5"]
  from sell_at_most_held [OF inp(1) _ _ inp(2,3) _ run] run
  show ?thesis by simp
qed

text \<open>
  C10 as stated fails for negative cash: with cash -100, no shares, price 1 and position
  size 0.5 the target is -50 shares and the order sells 50 although none are held.
\<close>

theorem sell_more_than_held_counterexample:
  "0 \<le> stock \<lparr> cash = - 100, stock = 0 \<rparr> \<and> (0::real) \<le> 0.5
   \<and> final_order (make_context (- 100) 0 1 0.5) = Some (''sell'', 50)
   \<and> \<not> 50 \<le> stock \<lparr> cash = - 100, stock = 0 \<rparr>"
  by (simp add: final_order_def pm_defs make_context_def)

section \<open>Portfolio manager: the order over any arithmetic\<close>

lemma as_num_default:
  "numeric_or_absent d k \<Longrightarrow> \<exists>c. as_num (get_default d k (PNum x)) = Some c"
  by (auto simp: numeric_or_absent_def get_default_def as_num_def split: option.splits)

lemma choose_action_spec: "choose_action t c = spec_action t c"
  by (simp add: choose_action_def spec_action_def)

lemma final_order_fp_eq:
  assumes "d ''portfolio'' = Some (PPortfolio p)"
    and "latest_close d = Some price"
    and "as_num (get_default d ''position_size'' (PNum (int_num ar 0))) = Some ps"
    and "upstream_numeric_fp d"
  shows "final_order_fp ar d =
           map_option (\<lambda>t. choose_action t (stock p))
             (target_shares_of_fp ar
                (fmul ar (fadd ar (cash p) (fmul ar (int_num ar (stock p)) price)) ps) price)"
proof -
  obtain fc tc sc vc where
    "as_num (get_default d ''fundamentals_confidence'' (PNum (lit ar 0.5))) = Some fc"
    "as_num (get_default d ''technical_confidence'' (PNum (lit ar 0.5))) = Some tc"
    "as_num (get_default d ''sentiment_confidence'' (PNum (lit ar 0.5))) = Some sc"
    "as_num (get_default d ''valuation_confidence'' (PNum (lit ar 0.5))) = Some vc"
    using assms(4) unfolding upstream_numeric_fp_def by (meson as_num_default)
  with assms(1-3) show ?thesis
    unfolding final_order_fp_def portfolio_management_agent_fp_def
    by (cases "target_shares_of_fp ar
                (fmul ar (fadd ar (cash p) (fmul ar (int_num ar (stock p)) price)) ps) price")
      (simp_all add: Let_def case_prod_beta)
qed

lemma towards_zero_code_fp:
  "map_option (\<lambda>t. choose_action t s)
     (target_shares_of_fp ar (fmul ar (fadd ar c (fmul ar (int_num ar s) price)) ps) price)
   = towards_zero_order_fp ar c s price ps"
  by (simp add: towards_zero_order_fp_def target_shares_of_fp_def py_int_def Let_def
      choose_action_spec split: option.splits)

text \<open>
  C4, amended. For every arithmetic, portfolio, price and position size the portfolio
  manager computes the total value cash + stock * price and the target value
  total * position size; the target shares are the quotient target value / price rounded
  towards zero when the price is positive (the floor of a quotient that is not negative,
  the ceiling of a negative one) and 0 otherwise. It buys the difference when the target
  exceeds the held shares, sells the difference when the target is below them, and holds 0
  when they are equal. When the price is not positive the order is to sell every held
  share when shares are held, to hold when none are, and to buy back a negative holding.
\<close>

theorem order_rule_any_arithmetic:
  assumes "d ''portfolio'' = Some (PPortfolio p)"
    and "latest_close d = Some price"
    and "as_num (get_default d ''position_size'' (PNum (int_num ar 0))) = Some ps"
    and "upstream_numeric_fp d"
  shows "final_order_fp ar d = towards_zero_order_fp ar (cash p) (stock p) price ps
       \<and> (\<not> flt ar (int_num ar 0) price \<and> 0 < stock p \<longrightarrow>
            final_order_fp ar d = Some (''sell'', stock p))
       \<and> (\<not> flt ar (int_num ar 0) price \<and> stock p = 0 \<longrightarrow>
            final_order_fp ar d = Some (''hold'', 0))
       \<and> (\<not> flt ar (int_num ar 0) price \<and> stock p < 0 \<longrightarrow>
            final_order_fp ar d = Some (''buy'', - stock p))"
proof -
  have eq: "final_order_fp ar d = towards_zero_order_fp ar (cash p) (stock p) price ps"
    using final_order_fp_eq [OF assms] by (simp only: towards_zero_code_fp)
  moreover have "towards_zero_order_fp ar (cash p) (stock p) price ps
                   = Some (spec_action 0 (stock p))"
    if "\<not> flt ar (int_num ar 0) price"
    using that by (simp add: towards_zero_order_fp_def)
  ultimately show ?thesis by (auto simp: spec_action_def)
qed

lemma make_context_inputs_fp:
  "make_context c s price ps ''portfolio'' = Some (PPortfolio \<lparr> cash = c, stock = s \<rparr>)"
  "latest_close (make_context c s price ps) = Some price"
  "as_num (get_default (make_context c s price ps) ''position_size'' (PNum x)) = Some ps"
  "upstream_numeric_fp (make_context c s price ps)"
  by (simp_all add: make_context_def latest_close_def get_default_def as_num_def
      upstream_numeric_fp_def numeric_or_absent_def)

theorem order_rule_any_arithmetic_witness:
  "final_order_fp exact (make_context 1000 5 30 0.5) = Some (''buy'', 14)
   \<and> final_order_fp exact (make_context 100 7 0 0.5) = Some (''sell'', 7)"
proof -
  have v: "towards_zero_order_fp exact 1000 5 30 0.5 = Some (''buy'', 14)"
    by (simp add: towards_zero_order_fp_def spec_action_def exact_def)
  have z: "\<not> flt exact (int_num exact 0) 0"
    by (simp add: exact_def)
  note r1 = order_rule_any_arithmetic [OF make_context_inputs_fp [of 1000 5 30 "0.5"]]
  note r2 = order_rule_any_arithmetic [OF make_context_inputs_fp [of 100 7 0 "0.5"]]
  have "final_order_fp exact (make_context 1000 5 30 0.5) = Some (''buy'', 14)"
    using r1 [THEN conjunct1] v by simp
  moreover have "final_order_fp exact (make_context 100 7 0 0.5) = Some (''sell'', 7)"
    using r2 [THEN conjunct2, THEN conjunct1] z by simp
  ultimately show ?thesis by (rule conjI)
qed

text \<open>
  C4 as stated fails in two places. With cash 100, no shares, price 3 and position size
  -0.5 the quotient is -16.67: the code sells 16, the floor would sell 17. With -5 shares
  at price 0 the code buys 5, where the specification says hold.
\<close>

theorem floor_order_counterexample:
  "final_order (make_context 100 0 3 (- 0.5)) = Some (''sell'', 16)
   \<and> spec_order 100 0 3 (- 0.5) = (''sell'', 17)
   \<and> final_order (make_context 100 (- 5) 0 0.5) = Some (''buy'', 5)
   \<and> spec_zero_price_order (- 5) = (''hold'', 0)"
proof -
  have "final_order (make_context 100 0 3 (- 0.5)) = Some (''sell'', 16)"
    by (simp add: final_order_def pm_defs make_context_def)
  moreover have "spec_order 100 0 3 (- 0.5) = (''sell'', 17)"
    by (simp add: spec_order_def)
  moreover have "final_order (make_context 100 (- 5) 0 0.5) = Some (''buy'', 5)"
    by (simp add: final_order_def pm_defs make_context_def)
  moreover have "spec_zero_price_order (- 5) = (''hold'', 0)"
    by (simp add: spec_zero_price_order_def)
  ultimately show ?thesis by simp
qed


section \<open>Every stage writes only its own keys\<close>

text \<open>
  C9. Every stage returns its input dictionary with only its own keys written: a key
  that is not one of the stage's published keys has the value it had, and the keys of
  the output are those of the input together with the published keys.
\<close>

theorem stage_frame:
  assumes "run_stage s d = Some out"
  shows "(\<forall>k. k \<notin> published_keys s \<longrightarrow> out k = d k)
       \<and> dom out = dom d \<union> published_keys s"
proof (cases s)
  case Fundamentals
  with assms show ?thesis
    by (auto simp: fundamentals_agent_def Let_def case_prod_beta split: Option.bind_splits)
next
  case Sentiment
  with assms show ?thesis
    by (auto simp: sentiment_agent_def Let_def case_prod_beta
        split: option.splits pyval_of.splits)
next
  case RiskManager
  with assms show ?thesis
    by (auto simp: risk_management_agent_def Let_def case_prod_beta split: Option.bind_splits)
next
  case PortfolioManager
  with assms show ?thesis
    by (auto simp: portfolio_management_agent_def Let_def case_prod_beta
        split: Option.bind_splits)
qed

theorem stage_frame_witness:
  "run_stage RiskManager scenario_risk_data =
     Some (scenario_risk_data(''risk_signal'' \<mapsto> PStr ''bullish'',
                              ''position_size'' \<mapsto> PNum 0.7))
   \<and> (scenario_risk_data(''risk_signal'' \<mapsto> PStr ''bullish'',
                          ''position_size'' \<mapsto> PNum 0.7)) ''fundamentals_signal''
       = scenario_risk_data ''fundamentals_signal''
   \<and> dom (scenario_risk_data(''risk_signal'' \<mapsto> PStr ''bullish'',
                              ''position_size'' \<mapsto> PNum 0.7))
       = dom scenario_risk_data \<union> published_keys RiskManager"
proof -
  have run: "run_stage RiskManager scenario_risk_data =
     Some (scenario_risk_data(''risk_signal'' \<mapsto> PStr ''bullish'',
                              ''position_size'' \<mapsto> PNum 0.7))"
    by (simp add: risk_defs scenario_risk_data_def scenario_risk_metrics_def)
  have other: "''fundamentals_signal'' \<notin> published_keys RiskManager"
    by simp
  note frame = stage_frame [OF run]
  from frame [THEN conjunct1, rule_format, OF other] frame [THEN conjunct2] run
  show ?thesis by blast
qed

section \<open>The real reading is the exact arithmetic\<close>

text \<open>
  Each agent over the reals is the agent over any arithmetic, taken at the exact one.
\<close>

lemma py_min_exact: "py_min exact a b = min a b"
  by (simp add: exact_simps)

lemma py_max_exact: "py_max exact a b = max a b"
  by (simp add: exact_simps)

lemma risk_scores_exact:
  "market_risk_fp exact x = market_risk x"
  "size_risk_fp exact x = size_risk x"
  "leverage_risk_fp exact x = leverage_risk x"
  "liquidity_risk_fp exact x = liquidity_risk x"
  "total_risk_score_fp exact mr sr lr lq = total_risk_score mr sr lr lq"
  by (simp_all add: market_risk_fp_def size_risk_fp_def leverage_risk_fp_def
      liquidity_risk_fp_def total_risk_score_fp_def market_risk_def size_risk_def
      leverage_risk_def liquidity_risk_def total_risk_score_def py_min_exact py_max_exact)
    (simp_all add: exact_def)

lemma sum_conf_tagged:
  "sum_conf tag sigs = map_option sum_list (tagged_confidences tag sigs)"
proof (induction sigs)
  case Nil
  show ?case by simp
next
  case (Cons sc sigs)
  obtain s c where sc: "sc = (s, c)" by (cases sc)
  from Cons show ?case
    by (cases "tagged_confidences tag sigs") (auto simp: sc split: option.splits)
qed

lemma sum_conf_exact: "sum_conf_fp exact tag sigs = sum_conf tag sigs"
  by (simp add: sum_conf_tagged sum_conf_fp_def exact_def)

lemma risk_management_agent_exact:
  "risk_management_agent_fp exact d = risk_management_agent d"
proof -
  have u: "upstream_signals_fp exact d = upstream_signals d"
    by (simp add: upstream_signals_fp_def upstream_signals_def exact_def)
  have s: "scale_position_fp exact b x y = scale_position b x y" for b x y
    by (simp add: scale_position_fp_def scale_position_def py_min_exact) (simp add: exact_def)
  have f: "fsub exact (lit exact 1.0) x = 1 - x" for x
    by (simp add: exact_def)
  have c: "py_min exact (lit exact 0.8) x = min 0.8 x" for x
    by (simp add: py_min_exact [symmetric]) (simp add: exact_def)
  show ?thesis
    unfolding risk_management_agent_fp_def risk_management_agent_def
    by (simp only: u s f c risk_scores_exact sum_conf_exact)
qed

lemma target_shares_exact:
  "target_shares_of_fp exact v price = Some (target_shares_of v price)"
  by (simp add: target_shares_of_fp_def target_shares_of_def exact_def)

lemma portfolio_management_agent_exact:
  "portfolio_management_agent_fp exact d = portfolio_management_agent d"
  unfolding portfolio_management_agent_fp_def portfolio_management_agent_def
  by (simp add: target_shares_exact) (simp add: exact_def)

lemma final_order_exact: "final_order_fp exact d = final_order d"
  by (simp add: final_order_fp_def final_order_def portfolio_management_agent_exact)

lemma fundamentals_signals_exact:
  "profitability_signal_fp exact a b c = profitability_signal a b c"
  "growth_signal_fp exact a b c = growth_signal a b c"
  "health_signal_fp exact a b c = health_signal a b c"
  "cash_flow_signal_fp exact a b = cash_flow_signal a b"
  "valuation_signal_fp exact a b c = valuation_signal a b c"
  by (simp_all add: profitability_signal_fp_def growth_signal_fp_def health_signal_fp_def
      cash_flow_signal_fp_def valuation_signal_fp_def profitability_signal_def
      growth_signal_def health_signal_def cash_flow_signal_def valuation_signal_def exact_def)

lemma aggregate_signals_exact: "aggregate_signals_fp exact xs = aggregate_signals xs"
  by (simp add: aggregate_signals_fp_def aggregate_signals_def py_min_exact Let_def)
    (simp add: exact_def)

lemma fundamentals_agent_exact: "fundamentals_agent_fp exact d = fundamentals_agent d"
  unfolding fundamentals_agent_fp_def fundamentals_agent_def
  by (simp only: fundamentals_signals_exact aggregate_signals_exact)

lemma dropna_exact: "dropna_fp exact xs = dropna xs"
  by (induction xs rule: dropna.induct) (simp_all add: exact_def)

lemma insider_analysis_exact:
  "snd (insider_analysis_fp exact ts) = snd (insider_analysis ts)"
  unfolding insider_analysis_fp_def insider_analysis_def dropna_exact py_min_exact
  by (cases "dropna (map trade_value ts) = []"; cases "ts = []")
    (simp_all add: Let_def exact_def)

lemma sentiment_agent_exact: "sentiment_agent_fp exact d = sentiment_agent d"
  using insider_analysis_exact
  by (auto simp: sentiment_agent_fp_def sentiment_agent_def case_prod_beta
      split: option.splits pyval_of.splits)

end
